theory Spec2Isabelle
  imports Main
begin

section \<open>Text\<close>

text \<open>
  A Python text (\<open>str\<close>) is modelled by the bytes of its UTF-8 encoding, so a
  character of the model is one byte and a character beyond ASCII is several. Two
  texts are equal exactly when their encodings are, a text is empty exactly when its
  encoding is, and the bar is one byte that occurs in the encoding of no other
  character, so \<open>s.split("|")\<close> cuts the encoding where it cuts the text.
\<close>

text \<open>\<open>s.split("|")\<close>: the fields between the bars, one field for a text without bar.\<close>

fun split_bar :: "string \<Rightarrow> string list" where
  "split_bar [] = [[]]"
| "split_bar (c # cs) =
     (if c = CHR ''|'' then [] # split_bar cs
      else (case split_bar cs of [] \<Rightarrow> [[c]] | f # fs \<Rightarrow> (c # f) # fs))"

text \<open>
  \<open>len(s)\<close>, the number of characters of a text: the bytes of its encoding that do not
  continue a character (the continuation bytes of UTF-8 are 128 to 191).
\<close>

definition char_count :: "string \<Rightarrow> nat" where
  "char_count s =
     length (filter (\<lambda>c. \<not> (128 \<le> (of_char c :: nat) \<and> (of_char c :: nat) < 192)) s)"

section \<open>The standard library\<close>

text \<open>
  The functions of the Python standard library the servers call on text are no part of
  the repository. They are parameters of the model, and nothing is assumed of them but
  what a theorem states as a hypothesis:
  \<open>str_strip\<close> is \<open>str.strip()\<close>, \<open>str_upper\<close> is \<open>str.upper()\<close> (both follow the
  Unicode tables: \<open>upper\<close> maps the dotless i and the long s onto I and S, \<open>strip\<close>
  removes the no-break space), \<open>utf8_decode\<close> is
  \<open>bytes.decode("utf-8", errors="replace")\<close> (the identity on well-formed UTF-8, the
  replacement character elsewhere), and \<open>json_loads\<close> is \<open>json.loads\<close>.

  \<open>json.loads\<close> returns any JSON value, raises \<open>JSONDecodeError\<close>, or raises
  something else (\<open>RecursionError\<close> on deep nesting, \<open>ValueError\<close> on a number of
  too many digits). Of a JSON object only \<open>status\<close> and \<open>message\<close> are read; a member
  that is no text is carried by the text \<open>str\<close> prints for it. A JSON value that is no
  object is carried by the name of its Python type (\<open>list\<close>, \<open>str\<close>, \<open>int\<close>,
  \<open>float\<close>, \<open>bool\<close>, \<open>NoneType\<close>).
\<close>

datatype jval = JStr string | JOther string

type_synonym nrc_dict = "string \<rightharpoonup> jval"

datatype json = JObject nrc_dict | JValue string

datatype loads = Parsed json | JSONDecodeError | Loads_raises string

record python =
  str_strip :: "string \<Rightarrow> string"
  str_upper :: "string \<Rightarrow> string"
  utf8_decode :: "string \<Rightarrow> string"
  json_loads :: "string \<Rightarrow> loads"

text \<open>
  A call returns a value or raises an exception, which is carried by the text
  \<open>str(e)\<close> that the servers print into their responses.
\<close>

datatype 'a outcome = Returns 'a | Raises string

section \<open>Data model\<close>

text \<open>
  A row of \<open>calificaciones.csv\<close> as \<open>save_records\<close> writes it (\<open>FIELDNAMES\<close>), and a
  row of \<open>estudiantes.csv\<close> (\<open>ESTUDIANTES_FIELDS\<close>). Every cell is a text. The
  files are modelled by the lists of their rows, in file order; a file that does not
  exist yet is created with its header only and so holds the empty list.
\<close>

record nota =
  ID_Estudiante :: string
  Materia :: string
  Calificacion :: string

record estudiante =
  est_ID :: string
  est_Nombre :: string

text \<open>
  A Python dict with text values keeps its insertion order: an association list.
  \<open>dict_set\<close> is \<open>d[k] = v\<close>.
\<close>

type_synonym dict = "(string \<times> string) list"

fun dict_set :: "dict \<Rightarrow> string \<Rightarrow> string \<Rightarrow> dict" where
  "dict_set [] k v = [(k, v)]"
| "dict_set ((k', v') # d) k v =
     (if k' = k then (k, v) # d else (k', v') # dict_set d k v)"

definition row_dict :: "nota \<Rightarrow> dict" where
  "row_dict r =
     [(''ID_Estudiante'', ID_Estudiante r), (''Materia'', Materia r),
      (''Calificacion'', Calificacion r)]"

text \<open>
  The responses: \<open>{"status": s, "message": m}\<close> and \<open>{"status": s, "data": d}\<close>,
  where the data is one dict or a list of dicts.
\<close>

datatype jdata = JObj dict | JList "dict list"

datatype resp = Msg string string | Data string jdata

fun status :: "resp \<Rightarrow> string" where
  "status (Msg s m) = s"
| "status (Data s d) = s"

text \<open>\<open>f"{d.get('message')}"\<close>\<close>

definition message_str :: "nrc_dict \<Rightarrow> string" where
  "message_str d =
     (case d ''message'' of None \<Rightarrow> ''None'' | Some (JStr s) \<Rightarrow> s | Some (JOther t) \<Rightarrow> t)"

text \<open>
  What the socket opened by \<open>consultar_nrc\<close> does. \<open>socket.create_connection\<close> or
  \<open>sendall\<close> may raise; otherwise the \<open>n\<close>-th call of \<open>s.recv(1024)\<close> returns bytes
  (none when the peer has closed) or raises, a timeout after 3 seconds included.
\<close>

datatype recv = Bytes string | Recv_raises string

datatype sock = Connect_raises string | Send_raises string | Connected "nat \<Rightarrow> recv"

text \<open>
  The world a request runs in: the rows \<open>calificaciones.csv\<close> holds as
  \<open>save_records\<close> wrote them, the rows of \<open>estudiantes.csv\<close> as \<open>csv.DictReader\<close>
  yields them (the servers only read that file), and the behaviour of the NRC service
  for a request \<open>BUSCAR_NRC|nrc\<close>.
\<close>

record world =
  calificaciones :: "nota list"
  estudiantes :: "estudiante list"
  nrc_socket :: "string \<Rightarrow> sock"

section \<open>Reading the store\<close>

text \<open>
  \<open>csv.DictWriter\<close> writes a field of any length, and \<open>csv.DictReader\<close> gives back
  the rows that were written, with one exception: the reader refuses a field of more
  characters than \<open>csv.field_size_limit()\<close>, which the servers leave at its default of
  131072, and \<open>list(reader)\<close> then raises \<open>_csv.Error\<close>. So \<open>load_records\<close> returns
  the rows of the file when every field of every row is within the limit, and raises
  otherwise.
\<close>

definition field_size_limit :: nat where
  "field_size_limit = 131072"

definition readable :: "nota \<Rightarrow> bool" where
  "readable r \<longleftrightarrow>
     char_count (ID_Estudiante r) \<le> field_size_limit
     \<and> char_count (Materia r) \<le> field_size_limit
     \<and> char_count (Calificacion r) \<le> field_size_limit"

definition load_records :: "world \<Rightarrow> nota list outcome" where
  "load_records w =
     (if \<forall>r \<in> set (calificaciones w). readable r then Returns (calificaciones w)
      else Raises ''field larger than field limit (131072)'')"

section \<open>Reading the roster\<close>

fun get_estudiante_nombre :: "estudiante list \<Rightarrow> string \<Rightarrow> string option" where
  "get_estudiante_nombre [] student_id = None"
| "get_estudiante_nombre (row # rows) student_id =
     (if est_ID row = student_id then Some (est_Nombre row)
      else get_estudiante_nombre rows student_id)"

fun load_estudiantes_loop :: "(string \<rightharpoonup> string) \<Rightarrow> estudiante list \<Rightarrow> (string \<rightharpoonup> string)" where
  "load_estudiantes_loop out [] = out"
| "load_estudiantes_loop out (row # rows) =
     load_estudiantes_loop
       (if est_ID row \<noteq> [] then out(est_ID row \<mapsto> est_Nombre row) else out) rows"

definition load_estudiantes_map :: "estudiante list \<Rightarrow> (string \<rightharpoonup> string)" where
  "load_estudiantes_map rows = load_estudiantes_loop Map.empty rows"

text \<open>\<open>if nombre_canon: rr["Nombre"] = nombre_canon\<close> on a copy of the row.\<close>

definition enrich :: "string option \<Rightarrow> dict \<Rightarrow> dict" where
  "enrich nombre_canon rr =
     (case nombre_canon of
        None \<Rightarrow> rr
      | Some n \<Rightarrow> if n \<noteq> [] then dict_set rr ''Nombre'' n else rr)"

section \<open>The NRC client\<close>

definition newline :: char where
  "newline = CHR 0x0A"

text \<open>
  The receive loop of \<open>consultar_nrc\<close>, from the \<open>i\<close>-th call of \<open>recv\<close> on, with
  the bytes gathered so far. \<open>Inl\<close> is the exception that leaves the \<open>try\<close> block,
  \<open>Inr\<close> the data when the loop breaks, \<open>None\<close> a loop that never ends.
\<close>

partial_function (option) recv_loop :: "(nat \<Rightarrow> recv) \<Rightarrow> nat \<Rightarrow> string \<Rightarrow> (string + string) option" where
  "recv_loop rcv i data =
     (case rcv i of
        Recv_raises e \<Rightarrow> Some (Inl e)
      | Bytes chunk \<Rightarrow>
          if chunk = [] then Some (Inr data)
          else if newline \<in> set chunk then Some (Inr (data @ chunk))
          else recv_loop rcv (Suc i) (data @ chunk))"

declare recv_loop.simps [code]

definition a_acute :: string where "a_acute = [CHR 0xC3, CHR 0xA1]"
definition i_acute :: string where "i_acute = [CHR 0xC3, CHR 0xAD]"
definition o_acute :: string where "o_acute = [CHR 0xC3, CHR 0xB3]"

definition error_dict :: "string \<Rightarrow> json" where
  "error_dict m = JObject [''status'' \<mapsto> JStr ''error'', ''message'' \<mapsto> JStr m]"

text \<open>
  The part of \<open>consultar_nrc\<close> after the \<open>try\<close> block has left the data: the first
  line is decoded and parsed, and only \<open>JSONDecodeError\<close> is caught.
\<close>

definition decode_response :: "python \<Rightarrow> string \<Rightarrow> json outcome" where
  "decode_response py data =
     (if data = [] then Returns (error_dict ''NRC service sin respuesta'')
      else let line = utf8_decode py (takeWhile (\<lambda>c. c \<noteq> newline) data) in
        case json_loads py line of
          Parsed j \<Rightarrow> Returns j
        | JSONDecodeError \<Rightarrow> Returns (error_dict (''NRC JSON inv'' @ a_acute @ ''lido: '' @ line))
        | Loads_raises e \<Rightarrow> Raises e)"

text \<open>\<open>None\<close> is a call that never returns.\<close>

definition consultar_nrc :: "python \<Rightarrow> world \<Rightarrow> string \<Rightarrow> json outcome option" where
  "consultar_nrc py w nrc =
     (case nrc_socket w nrc of
        Connect_raises e \<Rightarrow> Some (Returns (error_dict (''NRC service error: '' @ e)))
      | Send_raises e \<Rightarrow> Some (Returns (error_dict (''NRC service error: '' @ e)))
      | Connected rcv \<Rightarrow>
          (case recv_loop rcv 0 [] of
             None \<Rightarrow> None
           | Some (Inl e) \<Rightarrow> Some (Returns (error_dict (''NRC service error: '' @ e)))
           | Some (Inr data) \<Rightarrow> Some (decode_response py data)))"

section \<open>The command handlers\<close>

text \<open>
  A handler takes the world and the fields of the line; it returns a response or raises,
  and leaves a world. The body of a \<open>with CSV_LOCK:\<close> block runs as one step here;
  the interleaving of two requests is the subject of a later section.
  \<open>handle_buscar\<close>, \<open>handle_actualizar\<close>, \<open>handle_listar\<close> and
  \<open>handle_eliminar\<close> read the same in \<open>con_hilos/server.py\<close> and
  \<open>sin_hilos/server.py\<close>, the lock apart; \<open>handle_agregar\<close> and with it
  \<open>process_command\<close> differ, and the sequential ones carry the suffix
  \<open>_sin_hilos\<close>.
\<close>

definition new_row :: "string \<Rightarrow> string \<Rightarrow> string \<Rightarrow> nota" where
  "new_row student_id materia calificacion =
     \<lparr>ID_Estudiante = student_id, Materia = materia, Calificacion = calificacion\<rparr>"

text \<open>
  The tail of \<open>handle_agregar\<close> after \<open>load_records\<close> has returned (in \<open>con_hilos\<close>
  inside the \<open>with CSV_LOCK:\<close> block): the response and the rows the file holds after.
\<close>

definition agregar_records :: "nota list \<Rightarrow> string \<Rightarrow> string \<Rightarrow> string \<Rightarrow> string \<Rightarrow> resp \<times> nota list" where
  "agregar_records records student_id materia calificacion nombre_canonico =
     (if \<exists>r \<in> set records. ID_Estudiante r = student_id \<and> Materia r = materia
      then (Msg ''error'' ''La nota para ese ID y Materia ya existe'', records)
      else
        (Data ''ok''
           (JObj (dict_set (row_dict (new_row student_id materia calificacion))
                    ''Nombre'' nombre_canonico)),
         records @ [new_row student_id materia calificacion]))"

text \<open>\<open>load_records\<close> and the tail together: what both variants of AGREGAR end with.\<close>

definition agregar_store :: "world \<Rightarrow> string \<Rightarrow> string \<Rightarrow> string \<Rightarrow> string \<Rightarrow> resp outcome \<times> world" where
  "agregar_store w student_id materia calificacion nombre_canonico =
     (case load_records w of
        Raises e \<Rightarrow> (Raises e, w)
      | Returns records \<Rightarrow>
          let (r, records') =
                agregar_records records student_id materia calificacion nombre_canonico
          in (Returns r, w\<lparr>calificaciones := records'\<rparr>))"

text \<open>\<open>nrc_resp.get\<close> on a JSON value that is no object.\<close>

definition attribute_error :: "string \<Rightarrow> string" where
  "attribute_error t =
     [CHR 0x27] @ t @ [CHR 0x27] @ '' object has no attribute '' @ [CHR 0x27] @ ''get''
     @ [CHR 0x27]"

text \<open>\<open>con_hilos/server.py\<close>: \<open>None\<close> when the catalog lookup never returns.\<close>

definition handle_agregar :: "python \<Rightarrow> world \<Rightarrow> string list \<Rightarrow> (resp outcome \<times> world) option" where
  "handle_agregar py w parts =
     (if length parts \<noteq> 5
      then Some (Returns (Msg ''error'' (''Formato inv'' @ a_acute @ ''lido para AGREGAR'')), w)
      else
        let student_id = parts ! 1; nombre = parts ! 2;
            materia = parts ! 3; calificacion = parts ! 4 in
        case consultar_nrc py w materia of
          None \<Rightarrow> None
        | Some (Raises e) \<Rightarrow> Some (Raises e, w)
        | Some (Returns (JValue t)) \<Rightarrow> Some (Raises (attribute_error t), w)
        | Some (Returns (JObject nrc_resp)) \<Rightarrow>
            if nrc_resp ''status'' = Some (JStr ''error'')
            then Some (Returns (Msg ''error''
                   (''Fallo validaci'' @ o_acute @ ''n NRC: '' @ message_str nrc_resp)), w)
            else if nrc_resp ''status'' = Some (JStr ''not_found'')
            then Some (Returns (Msg ''error'' (''NRC no encontrado: '' @ materia)), w)
            else
              (case get_estudiante_nombre (estudiantes w) student_id of
                 None \<Rightarrow>
                   Some (Returns
                     (Msg ''error'' ''ID_Estudiante no encontrado en estudiantes.csv''), w)
               | Some nombre_canonico \<Rightarrow>
                   Some (agregar_store w student_id materia calificacion nombre_canonico)))"

text \<open>\<open>sin_hilos/server.py\<close>: three arguments, no catalog lookup.\<close>

definition handle_agregar_sin_hilos :: "world \<Rightarrow> string list \<Rightarrow> resp outcome \<times> world" where
  "handle_agregar_sin_hilos w parts =
     (if length parts \<noteq> 4
      then (Returns (Msg ''error''
              (''Formato inv'' @ a_acute
               @ ''lido para AGREGAR. Usa: AGREGAR|ID|Materia|Calificacion'')), w)
      else
        let student_id = parts ! 1; materia = parts ! 2; calificacion = parts ! 3 in
        if student_id = []
        then (Returns (Msg ''error'' (''ID_Estudiante vac'' @ i_acute @ ''o'')), w)
        else
          case get_estudiante_nombre (estudiantes w) student_id of
            None \<Rightarrow>
              (Returns (Msg ''error'' ''ID_Estudiante no encontrado en estudiantes.csv''), w)
          | Some nombre_canonico \<Rightarrow>
              agregar_store w student_id materia calificacion nombre_canonico)"

definition handle_buscar :: "world \<Rightarrow> string list \<Rightarrow> resp outcome \<times> world" where
  "handle_buscar w parts =
     (if length parts \<noteq> 2
      then (Returns (Msg ''error'' (''Formato inv'' @ a_acute @ ''lido para BUSCAR'')), w)
      else
        let student_id = parts ! 1 in
        case load_records w of
          Raises e \<Rightarrow> (Raises e, w)
        | Returns records \<Rightarrow>
            let rows = map row_dict (filter (\<lambda>r. ID_Estudiante r = student_id) records) in
            if rows = [] then (Returns (Msg ''not_found'' ''No existe el ID''), w)
            else
              let est_map = load_estudiantes_map (estudiantes w);
                  nombre_canon = est_map student_id
              in (Returns (Data ''ok'' (JList (map (enrich nombre_canon) rows))), w))"

text \<open>
  The loop \<open>for r in records: if ...: r["Calificacion"] = nueva_cal; updated = True; break\<close>:
  the rows after it, and \<open>updated\<close>.
\<close>

fun actualizar_loop :: "string \<Rightarrow> string \<Rightarrow> string \<Rightarrow> nota list \<Rightarrow> nota list \<times> bool" where
  "actualizar_loop student_id materia nueva_cal [] = ([], False)"
| "actualizar_loop student_id materia nueva_cal (r # rs) =
     (if ID_Estudiante r = student_id \<and> Materia r = materia
      then (r\<lparr>Calificacion := nueva_cal\<rparr> # rs, True)
      else (case actualizar_loop student_id materia nueva_cal rs of
              (rs', updated) \<Rightarrow> (r # rs', updated)))"

definition actualizado :: "string \<Rightarrow> string \<Rightarrow> string \<Rightarrow> resp" where
  "actualizado student_id materia nueva_cal =
     Data ''ok''
       (JObj [(''ID_Estudiante'', student_id), (''Materia'', materia),
              (''Calificacion'', nueva_cal)])"

definition handle_actualizar :: "world \<Rightarrow> string list \<Rightarrow> resp outcome \<times> world" where
  "handle_actualizar w parts =
     (if length parts \<noteq> 3 \<and> length parts \<noteq> 4
      then (Returns (Msg ''error''
              (''Formato inv'' @ a_acute
               @ ''lido para ACTUALIZAR (use ID|nueva o ID|Materia|nueva)'')), w)
      else
        let student_id = parts ! 1 in
        case load_records w of
          Raises e \<Rightarrow> (Raises e, w)
        | Returns records \<Rightarrow>
            if length parts = 4 then
              let materia = parts ! 2; nueva_cal = parts ! 3;
                  (records', updated) = actualizar_loop student_id materia nueva_cal records
              in if \<not> updated
                 then (Returns (Msg ''not_found'' ''No existe nota para ese ID y Materia''), w)
                 else (Returns (actualizado student_id materia nueva_cal),
                       w\<lparr>calificaciones := records'\<rparr>)
            else
              let nueva_cal = parts ! 2;
                  notas_id = filter (\<lambda>r. ID_Estudiante r = student_id) records
              in if notas_id = [] then (Returns (Msg ''not_found'' ''No existe el ID''), w)
                 else if length notas_id > 1
                 then (Returns (Msg ''error''
                         ''El ID tiene varias notas; use ACTUALIZAR|ID|Materia|nueva''), w)
                 else
                   let materia = Materia (notas_id ! 0)
                   in (Returns (actualizado student_id materia nueva_cal),
                       w\<lparr>calificaciones :=
                            fst (actualizar_loop student_id materia nueva_cal records)\<rparr>))"

definition handle_listar :: "world \<Rightarrow> string list \<Rightarrow> resp outcome \<times> world" where
  "handle_listar w parts =
     (if length parts \<noteq> 1
      then (Returns (Msg ''error'' (''Formato inv'' @ a_acute @ ''lido para LISTAR'')), w)
      else
        case load_records w of
          Raises e \<Rightarrow> (Raises e, w)
        | Returns rows \<Rightarrow>
            let est_map = load_estudiantes_map (estudiantes w)
            in (Returns (Data ''ok''
                  (JList (map (\<lambda>r. enrich (est_map (ID_Estudiante r)) (row_dict r)) rows))),
                w))"

definition eliminado :: "string \<Rightarrow> string \<Rightarrow> resp" where
  "eliminado student_id materia =
     Data ''ok'' (JObj [(''ID_Estudiante'', student_id), (''Materia'', materia)])"

text \<open>
  \<open>materia = parts[2] if len(parts) == 3 else None\<close>, and \<open>if materia:\<close> holds for a
  text that is not empty.
\<close>

definition handle_eliminar :: "world \<Rightarrow> string list \<Rightarrow> resp outcome \<times> world" where
  "handle_eliminar w parts =
     (if length parts \<noteq> 2 \<and> length parts \<noteq> 3
      then (Returns (Msg ''error''
              (''Formato inv'' @ a_acute @ ''lido para ELIMINAR (use ID o ID|Materia)'')), w)
      else
        let student_id = parts ! 1;
            materia = (if length parts = 3 then Some (parts ! 2) else None)
        in
        case load_records w of
          Raises e \<Rightarrow> (Raises e, w)
        | Returns records \<Rightarrow>
            if materia \<noteq> None \<and> materia \<noteq> Some [] then
              let new_records =
                    filter (\<lambda>r. \<not> (ID_Estudiante r = student_id \<and> Materia r = the materia))
                      records
              in if length new_records = length records
                 then (Returns (Msg ''not_found'' ''No existe nota para ese ID y Materia''), w)
                 else (Returns (eliminado student_id (the materia)),
                       w\<lparr>calificaciones := new_records\<rparr>)
            else
              let notas_id = filter (\<lambda>r. ID_Estudiante r = student_id) records
              in if notas_id = [] then (Returns (Msg ''not_found'' ''No existe el ID''), w)
                 else if length notas_id > 1
                 then (Returns (Msg ''error''
                         ''El ID tiene varias notas; especifique Materia (ELIMINAR|ID|Materia)''),
                       w)
                 else
                   let unica_materia = Materia (notas_id ! 0);
                       new_records =
                         filter
                           (\<lambda>r. \<not> (ID_Estudiante r = student_id \<and> Materia r = unica_materia))
                           records
                   in (Returns (eliminado student_id unica_materia),
                       w\<lparr>calificaciones := new_records\<rparr>))"

section \<open>The dispatcher\<close>

text \<open>\<open>line = line.strip(); parts = line.split("|") if line else []\<close>\<close>

definition parse_line :: "python \<Rightarrow> string \<Rightarrow> string list" where
  "parse_line py line0 =
     (let line = str_strip py line0 in if line \<noteq> [] then split_bar line else [])"

definition process_command :: "python \<Rightarrow> world \<Rightarrow> string \<Rightarrow> (resp outcome \<times> world) option" where
  "process_command py w line =
     (let parts = parse_line py line in
      if parts = [] then Some (Returns (Msg ''error'' (''Comando vac'' @ i_acute @ ''o'')), w)
      else
        let cmd = str_upper py (parts ! 0) in
        if cmd = ''AGREGAR'' then handle_agregar py w parts
        else if cmd = ''BUSCAR'' then Some (handle_buscar w parts)
        else if cmd = ''ACTUALIZAR'' then Some (handle_actualizar w parts)
        else if cmd = ''LISTAR'' then Some (handle_listar w parts)
        else if cmd = ''ELIMINAR'' then Some (handle_eliminar w parts)
        else Some (Returns (Msg ''error'' (''Comando desconocido: '' @ cmd)), w))"

definition process_command_sin_hilos :: "python \<Rightarrow> world \<Rightarrow> string \<Rightarrow> resp outcome \<times> world" where
  "process_command_sin_hilos py w line =
     (let parts = parse_line py line in
      if parts = [] then (Returns (Msg ''error'' (''Comando vac'' @ i_acute @ ''o'')), w)
      else
        let cmd = str_upper py (parts ! 0) in
        if cmd = ''AGREGAR'' then handle_agregar_sin_hilos w parts
        else if cmd = ''BUSCAR'' then handle_buscar w parts
        else if cmd = ''ACTUALIZAR'' then handle_actualizar w parts
        else if cmd = ''LISTAR'' then handle_listar w parts
        else if cmd = ''ELIMINAR'' then handle_eliminar w parts
        else (Returns (Msg ''error'' (''Comando desconocido: '' @ cmd)), w))"

text \<open>
  What the client is sent for a line: \<open>handle_client\<close> in \<open>con_hilos\<close> and
  \<open>serve_forever\<close> in \<open>sin_hilos\<close> wrap \<open>process_command\<close> in
  \<open>try: ... except Exception as e\<close> and answer an exception with a response of
  status error.
\<close>

definition excepcion :: "string \<Rightarrow> resp" where
  "excepcion e = Msg ''error'' (''Excepci'' @ o_acute @ ''n: '' @ e)"

definition sent :: "resp outcome \<Rightarrow> resp" where
  "sent out = (case out of Returns r \<Rightarrow> r | Raises e \<Rightarrow> excepcion e)"

section \<open>Properties the claims speak of\<close>

text \<open>The identity of a record, and invariant I1: no two records share it.\<close>

definition pair_of :: "nota \<Rightarrow> string \<times> string" where
  "pair_of r = (ID_Estudiante r, Materia r)"

definition unique_pairs :: "nota list \<Rightarrow> bool" where
  "unique_pairs records \<longleftrightarrow> distinct (map pair_of records)"





text \<open>
  A call of \<open>recv\<close> that ends the receive loop: it raises, finds the peer closed, or
  brings a line break. \<open>gathered rcv i n\<close> is what the calls \<open>i\<close> to \<open>i + n\<close>
  bring together.
\<close>

definition ends :: "recv \<Rightarrow> bool" where
  "ends r \<longleftrightarrow> (case r of Recv_raises e \<Rightarrow> True | Bytes chunk \<Rightarrow> chunk = [] \<or> newline \<in> set chunk)"

definition chunk_of :: "recv \<Rightarrow> string" where
  "chunk_of r = (case r of Recv_raises e \<Rightarrow> [] | Bytes chunk \<Rightarrow> chunk)"

fun gathered :: "(nat \<Rightarrow> recv) \<Rightarrow> nat \<Rightarrow> nat \<Rightarrow> string" where
  "gathered rcv i 0 = chunk_of (rcv i)"
| "gathered rcv i (Suc n) = chunk_of (rcv i) @ gathered rcv (Suc i) n"

section \<open>A concrete world\<close>

text \<open>
  On ASCII text \<open>str.strip\<close> removes tab, line feed, vertical tab, form feed, carriage
  return, the four separators 28 to 31 and the blank from both ends, and \<open>str.upper\<close>
  maps a to z onto A to Z. The examples below are ASCII text and take these for the
  functions of the standard library; on such text decoding changes nothing.
\<close>

definition ascii_isspace :: "char \<Rightarrow> bool" where
  "ascii_isspace c \<longleftrightarrow> (of_char c :: nat) \<in> {9, 10, 11, 12, 13, 28, 29, 30, 31, 32}"

definition ascii_strip :: "string \<Rightarrow> string" where
  "ascii_strip s = rev (dropWhile ascii_isspace (rev (dropWhile ascii_isspace s)))"

definition ascii_upper_char :: "char \<Rightarrow> char" where
  "ascii_upper_char c =
     (if 97 \<le> (of_char c :: nat) \<and> (of_char c :: nat) \<le> 122
      then char_of ((of_char c :: nat) - 32) else c)"

definition ascii_upper :: "string \<Rightarrow> string" where
  "ascii_upper s = map ascii_upper_char s"

text \<open>
  The lines the NRC service of \<open>nrcs_server.py\<close> answers with, and a fragment of
  \<open>json.loads\<close> that reads them, reads the empty JSON list, and gives up on
  \<open>deep_line\<close>, a hundred thousand opening brackets, with \<open>RecursionError\<close>.
\<close>

definition line_ok :: string where
  \<open>line_ok = ''{"status": "ok", "data": {"NRC": "MAT101", "Materia": "Matematicas I"}}''\<close>

definition line_not_found :: string where
  \<open>line_not_found = ''{"status": "not_found"}''\<close>

definition deep_line :: string where
  "deep_line = replicate 100000 (CHR ''['')"

definition demo_loads :: "string \<Rightarrow> loads" where
  "demo_loads line =
     (if line = line_ok
      then Parsed (JObject [''status'' \<mapsto> JStr ''ok'', ''data'' \<mapsto> JOther ''{...}''])
      else if line = line_not_found then Parsed (JObject [''status'' \<mapsto> JStr ''not_found''])
      else if line = ''[]'' then Parsed (JValue ''list'')
      else if line = deep_line
      then Loads_raises
        ''maximum recursion depth exceeded while decoding a JSON array from a unicode string''
      else JSONDecodeError)"

definition demo_py :: python where
  "demo_py =
     \<lparr>str_strip = ascii_strip, str_upper = ascii_upper, utf8_decode = (\<lambda>b. b),
      json_loads = demo_loads\<rparr>"

text \<open>
  A service that knows \<open>MAT101\<close>, cannot be reached for \<open>DOWN\<close>, stays silent until
  the timeout for \<open>SLOW\<close>, closes without a byte for \<open>EMPTY\<close>, answers a line that
  is no JSON for \<open>BAD\<close>, the empty JSON list for \<open>LIST\<close>, \<open>deep_line\<close> in a
  hundred chunks of a thousand bytes for \<open>DEEP\<close>, and \<open>not_found\<close> (in two chunks)
  for any other code. In \<open>drip_world\<close> the service sends one byte for every \<open>recv\<close>
  and never a line break.
\<close>

definition deep_recv :: "nat \<Rightarrow> recv" where
  "deep_recv n = (if n < 100 then Bytes (replicate 1000 (CHR ''['')) else Bytes [newline])"

definition demo_socket :: "string \<Rightarrow> sock" where
  "demo_socket nrc =
     (if nrc = ''MAT101''
      then Connected (\<lambda>n. if n = 0 then Bytes (line_ok @ [newline]) else Bytes [])
      else if nrc = ''DOWN'' then Connect_raises ''[Errno 111] Connection refused''
      else if nrc = ''SLOW'' then Connected (\<lambda>n. Recv_raises ''timed out'')
      else if nrc = ''EMPTY'' then Connected (\<lambda>n. Bytes [])
      else if nrc = ''BAD'' then Connected (\<lambda>n. Bytes (''<html>'' @ [newline]))
      else if nrc = ''LIST'' then Connected (\<lambda>n. Bytes (''[]'' @ [newline]))
      else if nrc = ''DEEP'' then Connected deep_recv
      else Connected (\<lambda>n. if n = 0 then Bytes line_not_found
                           else if n = 1 then Bytes [newline] else Bytes []))"

definition demo_roster :: "estudiante list" where
  "demo_roster =
     [\<lparr>est_ID = ''1'', est_Nombre = ''Ana''\<rparr>, \<lparr>est_ID = ''2'', est_Nombre = []\<rparr>]"

definition demo_world :: "nota list \<Rightarrow> world" where
  "demo_world records =
     \<lparr>calificaciones = records, estudiantes = demo_roster, nrc_socket = demo_socket\<rparr>"

definition drip :: "nat \<Rightarrow> recv" where
  "drip n = Bytes ''x''"

definition drip_world :: world where
  "drip_world = (demo_world [])\<lparr>nrc_socket := (\<lambda>nrc. Connected drip)\<rparr>"

text \<open>A grade of one character more than the reader of the store accepts.\<close>

definition long_grade :: string where
  "long_grade = replicate 131073 (CHR ''9'')"

lemmas demo_defs =
  demo_world_def demo_roster_def demo_socket_def demo_loads_def line_ok_def
  line_not_found_def newline_def new_row_def row_dict_def Let_def

lemmas nrc_defs = consultar_nrc_def decode_response_def error_dict_def recv_loop.simps

lemmas py_defs = demo_py_def ascii_strip_def ascii_isspace_def ascii_upper_def ascii_upper_char_def

section \<open>Reading the store: what \<open>load_records\<close> returns\<close>

lemma char_count_le: "char_count s \<le> length s"
  by (simp add: char_count_def)

lemma readable_new_row:
  "readable (new_row student_id materia calificacion) \<longleftrightarrow>
   char_count student_id \<le> field_size_limit \<and> char_count materia \<le> field_size_limit
   \<and> char_count calificacion \<le> field_size_limit"
  by (simp add: readable_def new_row_def)

lemma readable_short:
  assumes "length student_id \<le> 131072" "length materia \<le> 131072"
    "length calificacion \<le> 131072"
  shows "readable (new_row student_id materia calificacion)"
  using assms char_count_le [of student_id] char_count_le [of materia]
    char_count_le [of calificacion]
  by (simp add: readable_new_row field_size_limit_def)

lemma load_records_Returns: "load_records w = Returns records \<Longrightarrow> records = calificaciones w"
  by (simp add: load_records_def split: if_splits)

lemma load_records_all:
  "load_records w = Returns records \<Longrightarrow> \<forall>r \<in> set (calificaciones w). readable r"
  by (simp add: load_records_def split: if_splits)

lemma load_records_readable:
  "\<forall>r \<in> set (calificaciones w). readable r \<Longrightarrow> load_records w = Returns (calificaciones w)"
  by (simp add: load_records_def)

lemma load_records_update:
  "\<forall>r \<in> set records. readable r \<Longrightarrow>
   load_records (w\<lparr>calificaciones := records\<rparr>) = Returns records"
  by (simp add: load_records_def)

section \<open>Invariant I1: the identity pair stays unique\<close>

lemma agregar_records_unique:
  "agregar_records records student_id materia calificacion nombre = (r, records') \<Longrightarrow>
   unique_pairs records \<Longrightarrow> unique_pairs records'"
  by (auto simp: agregar_records_def unique_pairs_def pair_of_def new_row_def split: if_splits)

lemma agregar_store_unique:
  assumes "unique_pairs (calificaciones w)"
    and "agregar_store w student_id materia calificacion nombre = (out, w')"
  shows "unique_pairs (calificaciones w')"
proof (cases "load_records w")
  case (Raises e)
  with assms show ?thesis by (simp add: agregar_store_def)
next
  case (Returns records)
  then have eq: "records = calificaciones w" by (rule load_records_Returns)
  obtain r records' where a:
    "agregar_records records student_id materia calificacion nombre = (r, records')"
    by (cases "agregar_records records student_id materia calificacion nombre")
  from agregar_records_unique [OF a] assms(1) eq have "unique_pairs records'" by simp
  with assms(2) Returns a show ?thesis by (auto simp: agregar_store_def)
qed

lemma actualizar_loop_pairs:
  "map pair_of (fst (actualizar_loop student_id materia nueva_cal records)) = map pair_of records"
  by (induction records) (auto simp: pair_of_def split: prod.splits)

lemma actualizar_loop_unique:
  "unique_pairs records \<Longrightarrow>
   unique_pairs (fst (actualizar_loop student_id materia nueva_cal records))"
  by (simp add: unique_pairs_def actualizar_loop_pairs)

lemma filter_unique: "unique_pairs records \<Longrightarrow> unique_pairs (filter P records)"
  by (simp add: unique_pairs_def distinct_map_filter)

lemma handle_agregar_unique:
  "unique_pairs (calificaciones w) \<Longrightarrow> handle_agregar py w parts = Some (out, w') \<Longrightarrow>
   unique_pairs (calificaciones w')"
  by (auto simp: handle_agregar_def Let_def
        split: if_splits option.splits outcome.splits json.splits
        dest: agregar_store_unique)

lemma agregar_store_unique_snd:
  "unique_pairs (calificaciones w) \<Longrightarrow>
   unique_pairs (calificaciones (snd (agregar_store w student_id materia calificacion nombre)))"
  by (rule agregar_store_unique [where out = "fst (agregar_store w student_id materia calificacion nombre)"])
    simp_all

lemma handle_agregar_sin_hilos_unique:
  "unique_pairs (calificaciones w) \<Longrightarrow>
   unique_pairs (calificaciones (snd (handle_agregar_sin_hilos w parts)))"
  by (simp add: handle_agregar_sin_hilos_def Let_def agregar_store_unique_snd
        split: option.splits)

lemma handle_buscar_world: "snd (handle_buscar w parts) = w"
  by (simp add: handle_buscar_def Let_def split: outcome.splits)

lemma handle_listar_world: "snd (handle_listar w parts) = w"
  by (simp add: handle_listar_def Let_def split: outcome.splits)

lemma handle_actualizar_unique:
  assumes "unique_pairs (calificaciones w)"
  shows "unique_pairs (calificaciones (snd (handle_actualizar w parts)))"
proof (cases "load_records w")
  case (Raises e)
  with assms show ?thesis by (simp add: handle_actualizar_def Let_def)
next
  case (Returns records)
  then have eq: "records = calificaciones w" by (rule load_records_Returns)
  have u: "unique_pairs (fst (actualizar_loop student_id materia nueva_cal records))"
    for student_id materia nueva_cal
    using assms eq by (simp add: actualizar_loop_unique)
  show ?thesis
    using assms Returns u [of "parts ! 1" "parts ! 2" "parts ! 3"]
      u [of "parts ! 1" "Materia (filter (\<lambda>r. ID_Estudiante r = parts ! 1) records ! 0)"
        "parts ! 2"]
    by (auto simp: handle_actualizar_def Let_def split: prod.splits)
qed

lemma handle_eliminar_unique:
  assumes "unique_pairs (calificaciones w)"
  shows "unique_pairs (calificaciones (snd (handle_eliminar w parts)))"
proof (cases "load_records w")
  case (Raises e)
  with assms show ?thesis by (simp add: handle_eliminar_def Let_def)
next
  case (Returns records)
  then have eq: "records = calificaciones w" by (rule load_records_Returns)
  have "unique_pairs (filter P records)" for P
    using assms eq by (simp add: filter_unique)
  with assms Returns show ?thesis by (simp add: handle_eliminar_def Let_def)
qed

lemma process_command_unique:
  "unique_pairs (calificaciones w) \<Longrightarrow> process_command py w line = Some (out, w') \<Longrightarrow>
   unique_pairs (calificaciones w')"
  using handle_agregar_unique [of w py "parse_line py line" out w']
    handle_actualizar_unique [of w "parse_line py line"]
    handle_eliminar_unique [of w "parse_line py line"]
    handle_buscar_world [of w "parse_line py line"]
    handle_listar_world [of w "parse_line py line"]
  by (auto simp: process_command_def Let_def split: if_splits)

lemma process_command_sin_hilos_unique:
  "unique_pairs (calificaciones w) \<Longrightarrow>
   unique_pairs (calificaciones (snd (process_command_sin_hilos py w line)))"
  using handle_agregar_sin_hilos_unique [of w "parse_line py line"]
    handle_actualizar_unique [of w "parse_line py line"]
    handle_eliminar_unique [of w "parse_line py line"]
    handle_buscar_world [of w "parse_line py line"]
    handle_listar_world [of w "parse_line py line"]
  by (auto simp: process_command_sin_hilos_def Let_def split: if_splits)

text \<open>An insert of a pair the store holds.\<close>

lemma agregar_records_present:
  "\<exists>r \<in> set records. ID_Estudiante r = student_id \<and> Materia r = materia \<Longrightarrow>
   agregar_records records student_id materia calificacion nombre_canonico =
     (Msg ''error'' ''La nota para ese ID y Materia ya existe'', records)"
  by (simp add: agregar_records_def)

lemma status_excepcion: "status (excepcion e) = ''error''"
  by (simp add: excepcion_def)

lemma sent_simps: "sent (Returns r) = r" "sent (Raises e) = excepcion e"
  by (simp_all add: sent_def)

lemma agregar_store_present:
  assumes "\<exists>r \<in> set (calificaciones w). ID_Estudiante r = student_id \<and> Materia r = materia"
  shows "status (sent (fst (agregar_store w student_id materia calificacion nombre))) = ''error''"
    and "snd (agregar_store w student_id materia calificacion nombre) = w"
    and "load_records w = Returns (calificaciones w) \<Longrightarrow>
         agregar_store w student_id materia calificacion nombre =
           (Returns (Msg ''error'' ''La nota para ese ID y Materia ya existe''), w)"
proof -
  note dup = agregar_records_present [OF assms]
  have c: "load_records w = Returns (calificaciones w) \<or> (\<exists>e. load_records w = Raises e)"
    by (simp add: load_records_def)
  show "status (sent (fst (agregar_store w student_id materia calificacion nombre))) = ''error''"
    using c by (auto simp: agregar_store_def dup sent_simps status_excepcion)
  show "snd (agregar_store w student_id materia calificacion nombre) = w"
    using c by (auto simp: agregar_store_def dup)
  show "load_records w = Returns (calificaciones w) \<Longrightarrow>
         agregar_store w student_id materia calificacion nombre =
           (Returns (Msg ''error'' ''La nota para ese ID y Materia ya existe''), w)"
    by (simp add: agregar_store_def dup)
qed

lemma handle_agregar_present:
  assumes "\<exists>r \<in> set (calificaciones w). ID_Estudiante r = student_id \<and> Materia r = materia"
  shows "handle_agregar py w [cmd, student_id, nombre, materia, calificacion] = Some (out, w') \<Longrightarrow>
           status (sent out) = ''error'' \<and> w' = w"
    and "consultar_nrc py w materia \<noteq> None \<Longrightarrow>
           handle_agregar py w [cmd, student_id, nombre, materia, calificacion] \<noteq> None"
    and "consultar_nrc py w materia = Some (Returns (JObject d)) \<Longrightarrow>
         d ''status'' \<noteq> Some (JStr ''error'') \<Longrightarrow>
         d ''status'' \<noteq> Some (JStr ''not_found'') \<Longrightarrow>
         get_estudiante_nombre (estudiantes w) student_id \<noteq> None \<Longrightarrow>
         load_records w = Returns (calificaciones w) \<Longrightarrow>
           handle_agregar py w [cmd, student_id, nombre, materia, calificacion] =
             Some (Returns (Msg ''error'' ''La nota para ese ID y Materia ya existe''), w)"
proof -
  note st = agregar_store_present [OF assms]
  have pair: "agregar_store w student_id materia calificacion n = (out', v) \<Longrightarrow>
      status (sent out') = ''error'' \<and> v = w" for n out' v
    using st(1) [of calificacion n] st(2) [of calificacion n] by simp
  show "handle_agregar py w [cmd, student_id, nombre, materia, calificacion] = Some (out, w') \<Longrightarrow>
           status (sent out) = ''error'' \<and> w' = w"
    by (auto simp: handle_agregar_def Let_def sent_simps status_excepcion
          split: if_splits option.splits outcome.splits json.splits dest: pair)
  show "consultar_nrc py w materia \<noteq> None \<Longrightarrow>
           handle_agregar py w [cmd, student_id, nombre, materia, calificacion] \<noteq> None"
    by (simp add: handle_agregar_def Let_def split: if_splits option.splits outcome.splits json.splits)
  show "consultar_nrc py w materia = Some (Returns (JObject d)) \<Longrightarrow>
         d ''status'' \<noteq> Some (JStr ''error'') \<Longrightarrow>
         d ''status'' \<noteq> Some (JStr ''not_found'') \<Longrightarrow>
         get_estudiante_nombre (estudiantes w) student_id \<noteq> None \<Longrightarrow>
         load_records w = Returns (calificaciones w) \<Longrightarrow>
           handle_agregar py w [cmd, student_id, nombre, materia, calificacion] =
             Some (Returns (Msg ''error'' ''La nota para ese ID y Materia ya existe''), w)"
    by (auto simp: handle_agregar_def Let_def st(3))
qed

lemma handle_agregar_sin_hilos_present:
  assumes "\<exists>r \<in> set (calificaciones w). ID_Estudiante r = student_id \<and> Materia r = materia"
  shows "status (sent (fst (handle_agregar_sin_hilos w [cmd, student_id, materia, calificacion])))
           = ''error''"
    and "snd (handle_agregar_sin_hilos w [cmd, student_id, materia, calificacion]) = w"
    and "student_id \<noteq> [] \<Longrightarrow> get_estudiante_nombre (estudiantes w) student_id \<noteq> None \<Longrightarrow>
         load_records w = Returns (calificaciones w) \<Longrightarrow>
           handle_agregar_sin_hilos w [cmd, student_id, materia, calificacion] =
             (Returns (Msg ''error'' ''La nota para ese ID y Materia ya existe''), w)"
proof -
  note st = agregar_store_present [OF assms]
  show "status (sent (fst (handle_agregar_sin_hilos w [cmd, student_id, materia, calificacion])))
           = ''error''"
    by (simp add: handle_agregar_sin_hilos_def Let_def st(1) sent_simps split: option.splits)
  show "snd (handle_agregar_sin_hilos w [cmd, student_id, materia, calificacion]) = w"
    by (simp add: handle_agregar_sin_hilos_def Let_def st(2) split: option.splits)
  show "student_id \<noteq> [] \<Longrightarrow> get_estudiante_nombre (estudiantes w) student_id \<noteq> None \<Longrightarrow>
         load_records w = Returns (calificaciones w) \<Longrightarrow>
           handle_agregar_sin_hilos w [cmd, student_id, materia, calificacion] =
             (Returns (Msg ''error'' ''La nota para ese ID y Materia ya existe''), w)"
    by (auto simp: handle_agregar_sin_hilos_def Let_def st(3))
qed

lemma load_records_demo:
  "\<forall>r \<in> set records. readable r \<Longrightarrow> load_records (demo_world records) = Returns records"
  by (simp add: load_records_def demo_world_def)

text \<open>
  An AGREGAR of a pair the store holds is not always answered as a duplicate: the checks
  of the catalog and of the roster come first (lines 162 to 171 of
  \<open>con_hilos/server.py\<close>, lines 121 to 129 of \<open>sin_hilos/server.py\<close>; the duplicate
  test is at line 177 and at line 133). With (1, XXX) and (9, MAT101) in the store, a
  catalog that does not know XXX and a roster without student 9, the concurrent server
  answers the insert of (1, XXX) with the error of the catalog, and the sequential
  server answers the insert of (9, MAT101) with the error of the roster.
\<close>

theorem duplicate_insert_counterexample:
  "new_row ''1'' ''XXX'' ''10''
     \<in> set (calificaciones (demo_world [new_row ''1'' ''XXX'' ''10'', new_row ''9'' ''MAT101'' ''10'']))
   \<and> handle_agregar demo_py
        (demo_world [new_row ''1'' ''XXX'' ''10'', new_row ''9'' ''MAT101'' ''10''])
        [''AGREGAR'', ''1'', ''x'', ''XXX'', ''8'']
       = Some (Returns (Msg ''error'' ''NRC no encontrado: XXX''),
               demo_world [new_row ''1'' ''XXX'' ''10'', new_row ''9'' ''MAT101'' ''10''])
   \<and> new_row ''9'' ''MAT101'' ''10''
     \<in> set (calificaciones (demo_world [new_row ''1'' ''XXX'' ''10'', new_row ''9'' ''MAT101'' ''10'']))
   \<and> handle_agregar_sin_hilos
        (demo_world [new_row ''1'' ''XXX'' ''10'', new_row ''9'' ''MAT101'' ''10''])
        [''AGREGAR'', ''9'', ''MAT101'', ''8'']
       = (Returns (Msg ''error'' ''ID_Estudiante no encontrado en estudiantes.csv''),
          demo_world [new_row ''1'' ''XXX'' ''10'', new_row ''9'' ''MAT101'' ''10''])"
proof -
  let ?w = "demo_world [new_row ''1'' ''XXX'' ''10'', new_row ''9'' ''MAT101'' ''10'']"
  have l: "consultar_nrc demo_py ?w ''XXX''
      = Some (Returns (JObject [''status'' \<mapsto> JStr ''not_found'']))"
    by (simp add: nrc_defs demo_defs demo_py_def)
  have a: "handle_agregar demo_py ?w [''AGREGAR'', ''1'', ''x'', ''XXX'', ''8'']
       = Some (Returns (Msg ''error'' ''NRC no encontrado: XXX''), ?w)"
    by (simp add: handle_agregar_def l Let_def)
  have b: "handle_agregar_sin_hilos ?w [''AGREGAR'', ''9'', ''MAT101'', ''8'']
       = (Returns (Msg ''error'' ''ID_Estudiante no encontrado en estudiantes.csv''), ?w)"
    by (simp add: handle_agregar_sin_hilos_def demo_defs)
  have m: "new_row ''1'' ''XXX'' ''10'' \<in> set (calificaciones ?w)"
    "new_row ''9'' ''MAT101'' ''10'' \<in> set (calificaciones ?w)"
    by (simp_all add: demo_world_def)
  from a b m show ?thesis by simp
qed

text \<open>
  Claim C1, as the code has it. From a store in which no two records share the pair
  (ID_Estudiante, Materia), every handler and both dispatchers leave a store in which
  no two records share it (AGREGAR, ACTUALIZAR and ELIMINAR in every form; BUSCAR and
  LISTAR write nothing), whether they return or raise. An AGREGAR of a pair the store
  holds never changes the world, and what the client is sent for it has status error:
  the sequential handler always, the concurrent handler as soon as its catalog lookup
  has come back, which is when it answers at all. The response is the duplicate one
  when the earlier steps of the handler pass: the catalog lookup returns an object that
  is neither an error nor \<open>not_found\<close>, the roster has the student (in the sequential
  variant the student id is not empty), and \<open>load_records\<close> reads the store. Otherwise
  it is the response of the step that failed first.
\<close>

theorem store_uniqueness_invariant:
  assumes "unique_pairs (calificaciones w)"
  shows "(\<forall>out w'. handle_agregar py w parts = Some (out, w') \<longrightarrow> unique_pairs (calificaciones w'))
    \<and> unique_pairs (calificaciones (snd (handle_agregar_sin_hilos w parts)))
    \<and> unique_pairs (calificaciones (snd (handle_actualizar w parts)))
    \<and> unique_pairs (calificaciones (snd (handle_eliminar w parts)))
    \<and> (\<forall>out w'. process_command py w line = Some (out, w') \<longrightarrow> unique_pairs (calificaciones w'))
    \<and> unique_pairs (calificaciones (snd (process_command_sin_hilos py w line)))
    \<and> ((\<exists>r \<in> set (calificaciones w). ID_Estudiante r = student_id \<and> Materia r = materia) \<longrightarrow>
          (\<forall>out w'. handle_agregar py w [cmd, student_id, nombre, materia, calificacion]
                     = Some (out, w')
             \<longrightarrow> status (sent out) = ''error'' \<and> w' = w)
        \<and> (consultar_nrc py w materia \<noteq> None \<longrightarrow>
             handle_agregar py w [cmd, student_id, nombre, materia, calificacion] \<noteq> None)
        \<and> (\<forall>d. consultar_nrc py w materia = Some (Returns (JObject d))
               \<and> d ''status'' \<noteq> Some (JStr ''error'')
               \<and> d ''status'' \<noteq> Some (JStr ''not_found'')
               \<and> get_estudiante_nombre (estudiantes w) student_id \<noteq> None
               \<and> load_records w = Returns (calificaciones w) \<longrightarrow>
             handle_agregar py w [cmd, student_id, nombre, materia, calificacion] =
               Some (Returns (Msg ''error'' ''La nota para ese ID y Materia ya existe''), w))
        \<and> status (sent (fst (handle_agregar_sin_hilos w [cmd, student_id, materia, calificacion])))
            = ''error''
        \<and> snd (handle_agregar_sin_hilos w [cmd, student_id, materia, calificacion]) = w
        \<and> (student_id \<noteq> [] \<and> get_estudiante_nombre (estudiantes w) student_id \<noteq> None
             \<and> load_records w = Returns (calificaciones w) \<longrightarrow>
             handle_agregar_sin_hilos w [cmd, student_id, materia, calificacion] =
               (Returns (Msg ''error'' ''La nota para ese ID y Materia ya existe''), w)))"
proof -
  note inv =
    handle_agregar_unique [OF assms] handle_agregar_sin_hilos_unique [OF assms]
    handle_actualizar_unique [OF assms] handle_eliminar_unique [OF assms]
    process_command_unique [OF assms] process_command_sin_hilos_unique [OF assms]
  note con =
    handle_agregar_present [where w = w and student_id = student_id and materia = materia
      and cmd = cmd and nombre = nombre and calificacion = calificacion and py = py]
  note sin =
    handle_agregar_sin_hilos_present [where w = w and student_id = student_id
      and materia = materia and cmd = cmd and calificacion = calificacion]
  show ?thesis
  proof (intro conjI allI impI)
    fix out w'
    assume "handle_agregar py w parts = Some (out, w')"
    then show "unique_pairs (calificaciones w')" by (rule inv(1))
  next
    show "unique_pairs (calificaciones (snd (handle_agregar_sin_hilos w parts)))"
      by (rule inv(2))
  next
    show "unique_pairs (calificaciones (snd (handle_actualizar w parts)))" by (rule inv(3))
  next
    show "unique_pairs (calificaciones (snd (handle_eliminar w parts)))" by (rule inv(4))
  next
    fix out w'
    assume "process_command py w line = Some (out, w')"
    then show "unique_pairs (calificaciones w')" by (rule inv(5))
  next
    show "unique_pairs (calificaciones (snd (process_command_sin_hilos py w line)))"
      by (rule inv(6))
  next
    fix out w'
    assume "\<exists>r \<in> set (calificaciones w). ID_Estudiante r = student_id \<and> Materia r = materia"
      and "handle_agregar py w [cmd, student_id, nombre, materia, calificacion] = Some (out, w')"
    then show "status (sent out) = ''error''" by (rule con(1) [THEN conjunct1])
  next
    fix out w'
    assume "\<exists>r \<in> set (calificaciones w). ID_Estudiante r = student_id \<and> Materia r = materia"
      and "handle_agregar py w [cmd, student_id, nombre, materia, calificacion] = Some (out, w')"
    then show "w' = w" by (rule con(1) [THEN conjunct2])
  next
    assume "\<exists>r \<in> set (calificaciones w). ID_Estudiante r = student_id \<and> Materia r = materia"
      and "consultar_nrc py w materia \<noteq> None"
    then show "handle_agregar py w [cmd, student_id, nombre, materia, calificacion] \<noteq> None"
      by (rule con(2))
  next
    fix d
    assume p: "\<exists>r \<in> set (calificaciones w). ID_Estudiante r = student_id \<and> Materia r = materia"
      and "consultar_nrc py w materia = Some (Returns (JObject d))
               \<and> d ''status'' \<noteq> Some (JStr ''error'')
               \<and> d ''status'' \<noteq> Some (JStr ''not_found'')
               \<and> get_estudiante_nombre (estudiantes w) student_id \<noteq> None
               \<and> load_records w = Returns (calificaciones w)"
    then have "consultar_nrc py w materia = Some (Returns (JObject d))"
      "d ''status'' \<noteq> Some (JStr ''error'')"
      "d ''status'' \<noteq> Some (JStr ''not_found'')"
      "get_estudiante_nombre (estudiantes w) student_id \<noteq> None"
      "load_records w = Returns (calificaciones w)"
      by simp_all
    with p show "handle_agregar py w [cmd, student_id, nombre, materia, calificacion] =
               Some (Returns (Msg ''error'' ''La nota para ese ID y Materia ya existe''), w)"
      by (rule con(3))
  next
    assume "\<exists>r \<in> set (calificaciones w). ID_Estudiante r = student_id \<and> Materia r = materia"
    then show "status (sent (fst (handle_agregar_sin_hilos w [cmd, student_id, materia, calificacion])))
            = ''error''"
      by (rule sin(1))
  next
    assume "\<exists>r \<in> set (calificaciones w). ID_Estudiante r = student_id \<and> Materia r = materia"
    then show "snd (handle_agregar_sin_hilos w [cmd, student_id, materia, calificacion]) = w"
      by (rule sin(2))
  next
    assume p: "\<exists>r \<in> set (calificaciones w). ID_Estudiante r = student_id \<and> Materia r = materia"
      and "student_id \<noteq> [] \<and> get_estudiante_nombre (estudiantes w) student_id \<noteq> None
             \<and> load_records w = Returns (calificaciones w)"
    then have "student_id \<noteq> []" "get_estudiante_nombre (estudiantes w) student_id \<noteq> None"
      "load_records w = Returns (calificaciones w)"
      by simp_all
    with p show "handle_agregar_sin_hilos w [cmd, student_id, materia, calificacion] =
               (Returns (Msg ''error'' ''La nota para ese ID y Materia ya existe''), w)"
      by (rule sin(3))
  qed
qed

text \<open>
  Witness of C1: from the store holding (1, MAT101), an insert for student 2 leaves two
  records with distinct pairs, and a second insert of (1, MAT101) is refused as a
  duplicate by both handlers.
\<close>

theorem store_uniqueness_invariant_witness:
  "unique_pairs (calificaciones (demo_world [new_row ''1'' ''MAT101'' ''10'']))
   \<and> process_command demo_py (demo_world [new_row ''1'' ''MAT101'' ''10''])
        ''AGREGAR|2|x|MAT101|7''
       = Some (Returns (Data ''ok'' (JObj [(''ID_Estudiante'', ''2''), (''Materia'', ''MAT101''),
                                  (''Calificacion'', ''7''), (''Nombre'', [])])),
               demo_world [new_row ''1'' ''MAT101'' ''10'', new_row ''2'' ''MAT101'' ''7''])
   \<and> unique_pairs [new_row ''1'' ''MAT101'' ''10'', new_row ''2'' ''MAT101'' ''7'']
   \<and> handle_agregar demo_py (demo_world [new_row ''1'' ''MAT101'' ''10''])
        [''AGREGAR'', ''1'', ''x'', ''MAT101'', ''8'']
       = Some (Returns (Msg ''error'' ''La nota para ese ID y Materia ya existe''),
               demo_world [new_row ''1'' ''MAT101'' ''10''])
   \<and> handle_agregar_sin_hilos (demo_world [new_row ''1'' ''MAT101'' ''10''])
        [''AGREGAR'', ''1'', ''MAT101'', ''8'']
       = (Returns (Msg ''error'' ''La nota para ese ID y Materia ya existe''),
          demo_world [new_row ''1'' ''MAT101'' ''10''])"
proof -
  let ?w = "demo_world [new_row ''1'' ''MAT101'' ''10'']"
  have u: "unique_pairs (calificaciones ?w)"
    by (simp add: unique_pairs_def pair_of_def demo_defs)
  have pl: "parse_line demo_py ''AGREGAR|2|x|MAT101|7''
      = [''AGREGAR'', ''2'', ''x'', ''MAT101'', ''7'']"
    by (simp add: parse_line_def py_defs)
  have up: "str_upper demo_py ''AGREGAR'' = ''AGREGAR''"
    by (simp add: py_defs)
  have l: "consultar_nrc demo_py ?w ''MAT101''
      = Some (Returns (JObject [''status'' \<mapsto> JStr ''ok'', ''data'' \<mapsto> JOther ''{...}'']))"
    by (simp add: nrc_defs demo_defs demo_py_def)
  have ld: "load_records ?w = Returns [new_row ''1'' ''MAT101'' ''10'']"
    by (rule load_records_demo) (simp add: readable_short)
  have ld': "load_records ?w = Returns (calificaciones ?w)"
    using ld by (simp add: demo_world_def)
  have g2: "get_estudiante_nombre (estudiantes ?w) ''2'' = Some []"
    by (simp add: demo_defs)
  have ag: "agregar_store ?w ''2'' ''MAT101'' ''7'' []
       = (Returns (Data ''ok'' (JObj [(''ID_Estudiante'', ''2''), (''Materia'', ''MAT101''),
                                  (''Calificacion'', ''7''), (''Nombre'', [])])),
          demo_world [new_row ''1'' ''MAT101'' ''10'', new_row ''2'' ''MAT101'' ''7''])"
    by (simp add: agregar_store_def ld agregar_records_def) (simp add: demo_defs)
  have p: "process_command demo_py ?w ''AGREGAR|2|x|MAT101|7''
       = Some (Returns (Data ''ok'' (JObj [(''ID_Estudiante'', ''2''), (''Materia'', ''MAT101''),
                                  (''Calificacion'', ''7''), (''Nombre'', [])])),
               demo_world [new_row ''1'' ''MAT101'' ''10'', new_row ''2'' ''MAT101'' ''7''])"
    by (simp add: process_command_def pl up handle_agregar_def l g2 ag Let_def)
  have e: "\<exists>r \<in> set (calificaciones ?w). ID_Estudiante r = ''1'' \<and> Materia r = ''MAT101''"
    by (simp add: demo_defs)
  have g: "get_estudiante_nombre (estudiantes ?w) ''1'' \<noteq> None"
    by (simp add: demo_defs)
  have s: "''1'' \<noteq> ([] :: string)"
    by simp
  note t = store_uniqueness_invariant [OF u, where line = "''AGREGAR|2|x|MAT101|7''"
      and student_id = "''1''" and materia = "''MAT101''" and cmd = "''AGREGAR''"
      and nombre = "''x''" and calificacion = "''8''" and py = demo_py]
  have a: "unique_pairs [new_row ''1'' ''MAT101'' ''10'', new_row ''2'' ''MAT101'' ''7'']"
    using t p by (simp add: demo_world_def)
  have b: "handle_agregar demo_py ?w [''AGREGAR'', ''1'', ''x'', ''MAT101'', ''8'']
       = Some (Returns (Msg ''error'' ''La nota para ese ID y Materia ya existe''), ?w)"
    using t e l g ld' by simp
  have c: "handle_agregar_sin_hilos ?w [''AGREGAR'', ''1'', ''MAT101'', ''8'']
       = (Returns (Msg ''error'' ''La nota para ese ID y Materia ya existe''), ?w)"
    using t e g s ld' by simp
  from u p a b c show ?thesis by simp
qed

section \<open>The forms of ACTUALIZAR and ELIMINAR with the id alone\<close>






section \<open>Malformed requests\<close>





section \<open>Reading after writing\<close>

lemma no_record_filter:
  "\<forall>r \<in> set records. ID_Estudiante r \<noteq> student_id \<Longrightarrow>
   filter (\<lambda>r. ID_Estudiante r = student_id) records = []"
  by (induction records) simp_all

lemma no_record_filter_not:
  "\<forall>r \<in> set records. ID_Estudiante r \<noteq> student_id \<Longrightarrow>
   filter (\<lambda>r. \<not> (ID_Estudiante r = student_id \<and> Materia r = materia)) records = records"
  by (induction records) simp_all

lemma no_record_filter_imp:
  "\<forall>r \<in> set records. ID_Estudiante r \<noteq> student_id \<Longrightarrow>
   filter (\<lambda>r. ID_Estudiante r = student_id \<longrightarrow> Materia r \<noteq> materia) records = records"
  by (induction records) simp_all

lemma actualizar_loop_last:
  "\<forall>r \<in> set records. ID_Estudiante r \<noteq> student_id \<Longrightarrow>
   actualizar_loop student_id materia nueva_cal
     (records @ [new_row student_id materia calificacion])
   = (records @ [new_row student_id materia nueva_cal], True)"
  by (induction records) (simp_all add: new_row_def)

lemma dict_set_row_dict:
  "dict_set (row_dict r) ''Nombre'' n = row_dict r @ [(''Nombre'', n)]"
  by (simp add: row_dict_def)

lemma char_count_replicate:
  "char_count (replicate n c) =
     (if 128 \<le> (of_char c :: nat) \<and> (of_char c :: nat) < 192 then 0 else n)"
  by (simp add: char_count_def)

lemma long_grade_count: "char_count long_grade = 131073"
  by (simp add: long_grade_def char_count_replicate)

lemma long_grade_unreadable: "\<not> readable (new_row student_id materia long_grade)"
  by (simp add: readable_new_row long_grade_count field_size_limit_def)

text \<open>
  The sequence of the claim breaks on a grade of more characters than the reader of the
  store accepts (\<open>recv_line\<close> puts no bound on the line, and no handler on a field).
  From the empty store, with student 1 in the roster and MAT101 in the catalog, the
  AGREGAR of (1, MAT101, \<open>long_grade\<close>) succeeds and writes the record; the BUSCAR of
  student 1 that follows raises in \<open>load_records\<close>, so the client is sent status
  error, not the record.
\<close>

theorem read_after_write_counterexample:
  "handle_agregar demo_py (demo_world []) [''AGREGAR'', ''1'', ''x'', ''MAT101'', long_grade]
     = Some (Returns (Data ''ok'' (JObj [(''ID_Estudiante'', ''1''), (''Materia'', ''MAT101''),
               (''Calificacion'', long_grade), (''Nombre'', ''Ana'')])),
             demo_world [new_row ''1'' ''MAT101'' long_grade])
   \<and> handle_buscar (demo_world [new_row ''1'' ''MAT101'' long_grade]) [''BUSCAR'', ''1'']
     = (Raises ''field larger than field limit (131072)'',
        demo_world [new_row ''1'' ''MAT101'' long_grade])
   \<and> status (sent (fst (handle_buscar (demo_world [new_row ''1'' ''MAT101'' long_grade])
        [''BUSCAR'', ''1'']))) = ''error''"
proof -
  have l: "consultar_nrc demo_py (demo_world []) ''MAT101''
      = Some (Returns (JObject [''status'' \<mapsto> JStr ''ok'', ''data'' \<mapsto> JOther ''{...}'']))"
    by (simp add: nrc_defs demo_defs demo_py_def)
  have g: "get_estudiante_nombre (estudiantes (demo_world [])) ''1'' = Some ''Ana''"
    by (simp add: demo_defs)
  have ld: "load_records (demo_world []) = Returns []"
    by (rule load_records_demo) simp
  have ag: "agregar_store (demo_world []) ''1'' ''MAT101'' long_grade ''Ana''
      = (Returns (Data ''ok'' (JObj [(''ID_Estudiante'', ''1''), (''Materia'', ''MAT101''),
               (''Calificacion'', long_grade), (''Nombre'', ''Ana'')])),
         demo_world [new_row ''1'' ''MAT101'' long_grade])"
    by (simp add: agregar_store_def ld agregar_records_def dict_set_row_dict)
      (simp add: demo_world_def row_dict_def new_row_def)
  have a: "handle_agregar demo_py (demo_world [])
       [''AGREGAR'', ''1'', ''x'', ''MAT101'', long_grade]
     = Some (Returns (Data ''ok'' (JObj [(''ID_Estudiante'', ''1''), (''Materia'', ''MAT101''),
               (''Calificacion'', long_grade), (''Nombre'', ''Ana'')])),
             demo_world [new_row ''1'' ''MAT101'' long_grade])"
    by (simp add: handle_agregar_def l g ag Let_def)
  have lr: "load_records (demo_world [new_row ''1'' ''MAT101'' long_grade])
      = Raises ''field larger than field limit (131072)''"
    by (simp add: load_records_def demo_world_def long_grade_unreadable)
  have b: "handle_buscar (demo_world [new_row ''1'' ''MAT101'' long_grade]) [''BUSCAR'', ''1'']
     = (Raises ''field larger than field limit (131072)'',
        demo_world [new_row ''1'' ''MAT101'' long_grade])"
    by (simp add: handle_buscar_def lr)
  from a b show ?thesis by (simp add: sent_simps status_excepcion)
qed

text \<open>
  Claim C8, as the code has it. Let \<open>load_records\<close> read the store, let the store hold
  no record of student S1, the roster hold S1 and the catalog lookup for C1 return
  status ok, and let S1, C1 and the grades G and G2 each have at most 131072 characters,
  the limit of the reader of the store. Then AGREGAR of (S1, C1, G) succeeds in the
  concurrent server (and in the sequential one, which wants S1 not empty); BUSCAR of S1
  then returns status ok with exactly one record, of grade G; after ACTUALIZAR to G2,
  in either form, BUSCAR returns that one record with grade G2; after ELIMINAR, in
  either form, the store is the one before the insert and BUSCAR returns not_found.
\<close>

theorem read_after_write:
  assumes ld: "load_records w = Returns records"
    and none: "\<forall>r \<in> set records. ID_Estudiante r \<noteq> S1"
    and roster: "get_estudiante_nombre (estudiantes w) S1 = Some nombre_canonico"
    and lookup: "consultar_nrc py w C1 = Some (Returns (JObject d))"
    and found: "d ''status'' = Some (JStr ''ok'')"
    and within: "readable (new_row S1 C1 G)" "readable (new_row S1 C1 G2)"
    and w1: "w1 = w\<lparr>calificaciones := records @ [new_row S1 C1 G]\<rparr>"
    and w2: "w2 = w\<lparr>calificaciones := records @ [new_row S1 C1 G2]\<rparr>"
  shows "handle_agregar py w [c1, S1, nombre, C1, G] =
           Some (Returns (Data ''ok'' (JObj [(''ID_Estudiante'', S1), (''Materia'', C1),
                   (''Calificacion'', G), (''Nombre'', nombre_canonico)])), w1)
    \<and> (S1 \<noteq> [] \<longrightarrow> handle_agregar_sin_hilos w [c1, S1, C1, G] =
           (Returns (Data ''ok'' (JObj [(''ID_Estudiante'', S1), (''Materia'', C1),
                   (''Calificacion'', G), (''Nombre'', nombre_canonico)])), w1))
    \<and> handle_buscar w1 [c2, S1] =
           (Returns (Data ''ok'' (JList [enrich (load_estudiantes_map (estudiantes w) S1)
               [(''ID_Estudiante'', S1), (''Materia'', C1), (''Calificacion'', G)]])), w1)
    \<and> handle_actualizar w1 [c3, S1, C1, G2] = (Returns (actualizado S1 C1 G2), w2)
    \<and> handle_actualizar w1 [c3, S1, G2] = (Returns (actualizado S1 C1 G2), w2)
    \<and> handle_buscar w2 [c2, S1] =
           (Returns (Data ''ok'' (JList [enrich (load_estudiantes_map (estudiantes w) S1)
               [(''ID_Estudiante'', S1), (''Materia'', C1), (''Calificacion'', G2)]])), w2)
    \<and> handle_eliminar w2 [c4, S1, C1] = (Returns (eliminado S1 C1), w)
    \<and> handle_eliminar w2 [c4, S1] = (Returns (eliminado S1 C1), w)
    \<and> handle_buscar w [c2, S1] = (Returns (Msg ''not_found'' ''No existe el ID''), w)"
proof -
  note f = no_record_filter [OF none]
  note fn = no_record_filter_not [OF none] no_record_filter_imp [OF none]
  note al = actualizar_loop_last [OF none]
  have eq: "records = calificaciones w"
    using ld by (rule load_records_Returns)
  have all: "\<forall>r \<in> set records. readable r"
    using load_records_all [OF ld] eq by simp
  have ld1: "load_records w1 = Returns (records @ [new_row S1 C1 G])"
    unfolding w1 by (rule load_records_update) (simp add: all within)
  have ld2: "load_records w2 = Returns (records @ [new_row S1 C1 G2])"
    unfolding w2 by (rule load_records_update) (simp add: all within)
  have same: "w\<lparr>calificaciones := records\<rparr> = w"
    by (simp add: eq)
  have absent: "\<not> (\<exists>r \<in> set records. ID_Estudiante r = S1 \<and> Materia r = C1)"
    using none by simp
  have ar: "agregar_records records S1 C1 G nombre_canonico =
      (Data ''ok'' (JObj [(''ID_Estudiante'', S1), (''Materia'', C1),
                   (''Calificacion'', G), (''Nombre'', nombre_canonico)]),
       records @ [new_row S1 C1 G])"
    using absent by (simp add: agregar_records_def dict_set_row_dict) (simp add: row_dict_def new_row_def)
  have ag: "agregar_store w S1 C1 G nombre_canonico =
      (Returns (Data ''ok'' (JObj [(''ID_Estudiante'', S1), (''Materia'', C1),
                   (''Calificacion'', G), (''Nombre'', nombre_canonico)])), w1)"
    by (simp add: agregar_store_def ld ar w1)
  have a: "handle_agregar py w [c1, S1, nombre, C1, G] =
           Some (Returns (Data ''ok'' (JObj [(''ID_Estudiante'', S1), (''Materia'', C1),
                   (''Calificacion'', G), (''Nombre'', nombre_canonico)])), w1)"
    by (simp add: handle_agregar_def lookup found roster ag Let_def)
  have s: "S1 \<noteq> [] \<longrightarrow> handle_agregar_sin_hilos w [c1, S1, C1, G] =
           (Returns (Data ''ok'' (JObj [(''ID_Estudiante'', S1), (''Materia'', C1),
                   (''Calificacion'', G), (''Nombre'', nombre_canonico)])), w1)"
    by (simp add: handle_agregar_sin_hilos_def roster ag Let_def)
  have est1: "estudiantes w1 = estudiantes w" and est2: "estudiantes w2 = estudiantes w"
    by (simp_all add: w1 w2)
  have b1: "handle_buscar w1 [c2, S1] =
           (Returns (Data ''ok'' (JList [enrich (load_estudiantes_map (estudiantes w) S1)
               [(''ID_Estudiante'', S1), (''Materia'', C1), (''Calificacion'', G)]])), w1)"
    by (simp add: handle_buscar_def ld1 est1 f Let_def) (simp add: new_row_def row_dict_def)
  have u3: "handle_actualizar w1 [c3, S1, C1, G2] = (Returns (actualizado S1 C1 G2), w2)"
    by (simp add: handle_actualizar_def ld1 al) (simp add: w1 w2)
  have u2: "handle_actualizar w1 [c3, S1, G2] = (Returns (actualizado S1 C1 G2), w2)"
    by (simp add: handle_actualizar_def ld1 f Let_def)
      (simp add: new_row_def al [unfolded new_row_def] w1 w2)
  have b2: "handle_buscar w2 [c2, S1] =
           (Returns (Data ''ok'' (JList [enrich (load_estudiantes_map (estudiantes w) S1)
               [(''ID_Estudiante'', S1), (''Materia'', C1), (''Calificacion'', G2)]])), w2)"
    by (simp add: handle_buscar_def ld2 est2 f Let_def) (simp add: new_row_def row_dict_def)
  have e2: "handle_eliminar w2 [c4, S1, C1] = (Returns (eliminado S1 C1), w)"
    by (simp add: handle_eliminar_def ld2 f fn Let_def) (simp add: new_row_def w2 same)
  have e1: "handle_eliminar w2 [c4, S1] = (Returns (eliminado S1 C1), w)"
    by (simp add: handle_eliminar_def ld2 f fn Let_def) (simp add: new_row_def w2 same)
  have b3: "handle_buscar w [c2, S1] = (Returns (Msg ''not_found'' ''No existe el ID''), w)"
    by (simp add: handle_buscar_def ld f)
  from a s b1 u3 u2 b2 e2 e1 b3 show ?thesis by (intro conjI)
qed

text \<open>
  Witness of C8: student 1 has no record in a store that holds one of student 2; the
  insert of (1, MAT101, 10), the update to 9 and the delete are each read back.
\<close>

theorem read_after_write_witness:
  "get_estudiante_nombre (estudiantes (demo_world [new_row ''2'' ''MAT101'' ''7''])) ''1''
     = Some ''Ana''
   \<and> handle_agregar demo_py (demo_world [new_row ''2'' ''MAT101'' ''7''])
        [''AGREGAR'', ''1'', ''x'', ''MAT101'', ''10'']
       = Some (Returns (Data ''ok'' (JObj [(''ID_Estudiante'', ''1''), (''Materia'', ''MAT101''),
                 (''Calificacion'', ''10''), (''Nombre'', ''Ana'')])),
               demo_world [new_row ''2'' ''MAT101'' ''7'', new_row ''1'' ''MAT101'' ''10''])
   \<and> handle_buscar (demo_world [new_row ''2'' ''MAT101'' ''7'', new_row ''1'' ''MAT101'' ''10''])
        [''BUSCAR'', ''1'']
       = (Returns (Data ''ok'' (JList [[(''ID_Estudiante'', ''1''), (''Materia'', ''MAT101''),
                 (''Calificacion'', ''10''), (''Nombre'', ''Ana'')]])),
          demo_world [new_row ''2'' ''MAT101'' ''7'', new_row ''1'' ''MAT101'' ''10''])
   \<and> handle_actualizar
        (demo_world [new_row ''2'' ''MAT101'' ''7'', new_row ''1'' ''MAT101'' ''10''])
        [''ACTUALIZAR'', ''1'', ''9'']
       = (Returns (actualizado ''1'' ''MAT101'' ''9''),
          demo_world [new_row ''2'' ''MAT101'' ''7'', new_row ''1'' ''MAT101'' ''9''])
   \<and> handle_buscar (demo_world [new_row ''2'' ''MAT101'' ''7'', new_row ''1'' ''MAT101'' ''9''])
        [''BUSCAR'', ''1'']
       = (Returns (Data ''ok'' (JList [[(''ID_Estudiante'', ''1''), (''Materia'', ''MAT101''),
                 (''Calificacion'', ''9''), (''Nombre'', ''Ana'')]])),
          demo_world [new_row ''2'' ''MAT101'' ''7'', new_row ''1'' ''MAT101'' ''9''])
   \<and> handle_eliminar
        (demo_world [new_row ''2'' ''MAT101'' ''7'', new_row ''1'' ''MAT101'' ''9''])
        [''ELIMINAR'', ''1'', ''MAT101'']
       = (Returns (eliminado ''1'' ''MAT101''), demo_world [new_row ''2'' ''MAT101'' ''7''])
   \<and> handle_buscar (demo_world [new_row ''2'' ''MAT101'' ''7'']) [''BUSCAR'', ''1'']
       = (Returns (Msg ''not_found'' ''No existe el ID''),
          demo_world [new_row ''2'' ''MAT101'' ''7''])"
proof -
  let ?w = "demo_world [new_row ''2'' ''MAT101'' ''7'']"
  have ld: "load_records ?w = Returns [new_row ''2'' ''MAT101'' ''7'']"
    by (rule load_records_demo) (simp add: readable_short)
  have none: "\<forall>r \<in> set [new_row ''2'' ''MAT101'' ''7'']. ID_Estudiante r \<noteq> ''1''"
    by (simp add: new_row_def)
  have roster: "get_estudiante_nombre (estudiantes ?w) ''1'' = Some ''Ana''"
    by (simp add: demo_defs)
  have lookup: "consultar_nrc demo_py ?w ''MAT101''
      = Some (Returns (JObject [''status'' \<mapsto> JStr ''ok'', ''data'' \<mapsto> JOther ''{...}'']))"
    by (simp add: nrc_defs demo_defs demo_py_def)
  have found: "[''status'' \<mapsto> JStr ''ok'', ''data'' \<mapsto> JOther ''{...}''] ''status''
      = Some (JStr ''ok'')"
    by simp
  have within: "readable (new_row ''1'' ''MAT101'' ''10'')"
    "readable (new_row ''1'' ''MAT101'' ''9'')"
    by (simp_all add: readable_short)
  have w1: "demo_world [new_row ''2'' ''MAT101'' ''7'', new_row ''1'' ''MAT101'' ''10'']
      = ?w\<lparr>calificaciones := [new_row ''2'' ''MAT101'' ''7''] @ [new_row ''1'' ''MAT101'' ''10'']\<rparr>"
    by (simp add: demo_world_def)
  have w2: "demo_world [new_row ''2'' ''MAT101'' ''7'', new_row ''1'' ''MAT101'' ''9'']
      = ?w\<lparr>calificaciones := [new_row ''2'' ''MAT101'' ''7''] @ [new_row ''1'' ''MAT101'' ''9'']\<rparr>"
    by (simp add: demo_world_def)
  have en: "\<And>g. enrich (load_estudiantes_map (estudiantes ?w) ''1'')
       [(''ID_Estudiante'', ''1''), (''Materia'', ''MAT101''), (''Calificacion'', g)]
     = [(''ID_Estudiante'', ''1''), (''Materia'', ''MAT101''), (''Calificacion'', g),
        (''Nombre'', ''Ana'')]"
    by (simp add: enrich_def load_estudiantes_map_def demo_world_def demo_roster_def)
  note t = read_after_write [OF ld none roster lookup found within w1 w2,
      where ?c1.0 = "''AGREGAR''"
      and nombre = "''x''" and ?c2.0 = "''BUSCAR''" and ?c3.0 = "''ACTUALIZAR''"
      and ?c4.0 = "''ELIMINAR''"]
  from roster t show ?thesis by (simp add: en)
qed

section \<open>A roster entry with an empty name\<close>

lemma get_estudiante_nombre_all:
  "\<forall>row \<in> set rows. est_ID row = student_id \<longrightarrow> est_Nombre row = n \<Longrightarrow>
   student_id \<in> est_ID ` set rows \<Longrightarrow>
   get_estudiante_nombre rows student_id = Some n"
  by (induction rows) auto

lemma load_estudiantes_loop_all:
  "\<forall>row \<in> set rows. est_ID row = student_id \<longrightarrow> est_Nombre row = n \<Longrightarrow>
   load_estudiantes_loop out rows student_id =
     (if student_id \<noteq> [] \<and> student_id \<in> est_ID ` set rows then Some n else out student_id)"
  by (induction rows arbitrary: out) auto

lemma load_estudiantes_loop_cong:
  "out k = out' k \<Longrightarrow>
   load_estudiantes_loop out rows k = load_estudiantes_loop out' rows k"
proof (induction rows arbitrary: out out')
  case Nil
  then show ?case by simp
next
  case (Cons row rows)
  show ?case
  proof (cases "est_ID row \<noteq> []")
    case True
    have "(out(est_ID row \<mapsto> est_Nombre row)) k = (out'(est_ID row \<mapsto> est_Nombre row)) k"
      using Cons.prems by simp
    from Cons.IH [of "out(est_ID row \<mapsto> est_Nombre row)"
        "out'(est_ID row \<mapsto> est_Nombre row)", OF this] True
    show ?thesis by (simp del: fun_upd_apply)
  next
    case False
    with Cons.IH [of out out', OF Cons.prems] show ?thesis by simp
  qed
qed

lemma load_estudiantes_loop_filter:
  "load_estudiantes_loop out (filter (\<lambda>row. est_ID row \<noteq> student_id) rows) k =
     (if k = student_id then out k else load_estudiantes_loop out rows k)"
proof (induction rows arbitrary: out)
  case Nil
  show ?case by simp
next
  case (Cons row rows)
  show ?case
  proof (cases "est_ID row = student_id")
    case True
    have "k \<noteq> student_id \<Longrightarrow>
        load_estudiantes_loop (out(student_id \<mapsto> est_Nombre row)) rows k
        = load_estudiantes_loop out rows k"
      by (rule load_estudiantes_loop_cong) simp
    with True show ?thesis by (simp add: Cons)
  next
    case False
    then show ?thesis by (simp add: Cons)
  qed
qed

lemma enrich_empty: "enrich (Some []) rr = rr" "enrich None rr = rr"
  by (simp_all add: enrich_def)

lemma enrich_id_key:
  "map_of (enrich n (row_dict r)) ''ID_Estudiante'' = Some (ID_Estudiante r)"
  by (simp add: enrich_def row_dict_def split: option.splits)

lemma load_estudiantes_map_empty_name:
  assumes "\<forall>row \<in> set rows. est_ID row = student_id \<longrightarrow> est_Nombre row = []"
  shows "load_estudiantes_map rows student_id = None
         \<or> load_estudiantes_map rows student_id = Some []"
  using load_estudiantes_loop_all [OF assms, of Map.empty]
  by (simp add: load_estudiantes_map_def)

lemma load_estudiantes_map_filter:
  "load_estudiantes_map (filter (\<lambda>row. est_ID row \<noteq> student_id) rows) k =
     (if k = student_id then None else load_estudiantes_map rows k)"
  by (simp add: load_estudiantes_map_def load_estudiantes_loop_filter)

lemma enrich_same:
  assumes "\<forall>row \<in> set rows. est_ID row = student_id \<longrightarrow> est_Nombre row = []"
  shows "enrich (load_estudiantes_map (filter (\<lambda>row. est_ID row \<noteq> student_id) rows) k) rr
         = enrich (load_estudiantes_map rows k) rr"
  using load_estudiantes_map_empty_name [OF assms]
  by (auto simp: load_estudiantes_map_filter enrich_empty)

lemma get_estudiante_nombre_filter:
  "get_estudiante_nombre (filter (\<lambda>row. est_ID row \<noteq> student_id) rows) student_id = None"
  by (induction rows) simp_all

lemma load_records_roster:
  "load_records (w\<lparr>estudiantes := rows\<rparr>) = load_records w"
  by (simp add: load_records_def)

lemma excepcion_not_roster:
  "excepcion e \<noteq> Msg ''error'' ''ID_Estudiante no encontrado en estudiantes.csv''"
  by (simp add: excepcion_def)

lemma status_excepcion_not_ok: "status (excepcion e) \<noteq> ''ok''"
  by (simp add: excepcion_def)

text \<open>
  Claim C9. Let the roster hold an entry for the student and let the Nombre of that
  student in the roster be empty (the roster holds one entry for a student; the
  hypothesis asks it of every entry of that student). Then what AGREGAR of either server
  answers is never that the student is missing from the roster, and whenever the status
  of the answer is ok the response carries Nombre equal to the empty text (the
  concurrent handler does succeed when the catalog lookup passes, \<open>load_records\<close> reads
  the store and the pair is new). BUSCAR for that student and LISTAR return the records
  of that student with no Nombre field at all, and their responses are those they give
  in the world \<open>w0\<close> whose roster lacks the student.
\<close>

theorem empty_roster_name:
  assumes present: "student_id \<in> est_ID ` set (estudiantes w)"
    and empty: "\<forall>row \<in> set (estudiantes w). est_ID row = student_id \<longrightarrow> est_Nombre row = []"
    and w0: "w0 = w\<lparr>estudiantes := filter (\<lambda>row. est_ID row \<noteq> student_id) (estudiantes w)\<rparr>"
  shows "(\<forall>out w'. handle_agregar py w [c, student_id, nombre, materia, calificacion]
                   = Some (out, w') \<longrightarrow>
            sent out \<noteq> Msg ''error'' ''ID_Estudiante no encontrado en estudiantes.csv''
          \<and> (status (sent out) = ''ok'' \<longrightarrow>
               out = Returns (Data ''ok'' (JObj [(''ID_Estudiante'', student_id),
                     (''Materia'', materia), (''Calificacion'', calificacion),
                     (''Nombre'', [])]))))
    \<and> (\<forall>d records. consultar_nrc py w materia = Some (Returns (JObject d))
            \<and> d ''status'' \<noteq> Some (JStr ''error'')
            \<and> d ''status'' \<noteq> Some (JStr ''not_found'')
            \<and> load_records w = Returns records
            \<and> \<not> (\<exists>r \<in> set records. ID_Estudiante r = student_id \<and> Materia r = materia)
          \<longrightarrow> handle_agregar py w [c, student_id, nombre, materia, calificacion] =
                Some (Returns (Data ''ok'' (JObj [(''ID_Estudiante'', student_id),
                        (''Materia'', materia), (''Calificacion'', calificacion),
                        (''Nombre'', [])])),
                      w\<lparr>calificaciones :=
                          records @ [new_row student_id materia calificacion]\<rparr>))
    \<and> sent (fst (handle_agregar_sin_hilos w [c, student_id, materia, calificacion]))
         \<noteq> Msg ''error'' ''ID_Estudiante no encontrado en estudiantes.csv''
    \<and> (status (sent (fst (handle_agregar_sin_hilos w [c, student_id, materia, calificacion])))
          = ''ok''
         \<longrightarrow> fst (handle_agregar_sin_hilos w [c, student_id, materia, calificacion]) =
               Returns (Data ''ok'' (JObj [(''ID_Estudiante'', student_id), (''Materia'', materia),
                     (''Calificacion'', calificacion), (''Nombre'', [])])))
    \<and> (\<forall>rows. fst (handle_buscar w [c, student_id]) = Returns (Data ''ok'' (JList rows)) \<longrightarrow>
           (\<forall>rr \<in> set rows. ''Nombre'' \<notin> fst ` set rr))
    \<and> fst (handle_buscar w [c, student_id]) = fst (handle_buscar w0 [c, student_id])
    \<and> (\<forall>rows. fst (handle_listar w [c]) = Returns (Data ''ok'' (JList rows)) \<longrightarrow>
           (\<forall>rr \<in> set rows. map_of rr ''ID_Estudiante'' = Some student_id \<longrightarrow>
              ''Nombre'' \<notin> fst ` set rr))
    \<and> fst (handle_listar w [c]) = fst (handle_listar w0 [c])
    \<and> get_estudiante_nombre (estudiantes w0) student_id = None
    \<and> load_estudiantes_map (estudiantes w0) student_id = None"
proof -
  let ?ok = "Data ''ok'' (JObj [(''ID_Estudiante'', student_id), (''Materia'', materia),
                     (''Calificacion'', calificacion), (''Nombre'', [])])"
  have nombre: "get_estudiante_nombre (estudiantes w) student_id = Some []"
    by (rule get_estudiante_nombre_all [OF empty present])
  note en = load_estudiantes_map_empty_name [OF empty]
  have ar: "\<And>records. fst (agregar_records records student_id materia calificacion [])
        = Msg ''error'' ''La nota para ese ID y Materia ya existe''
      \<or> fst (agregar_records records student_id materia calificacion []) = ?ok"
    by (simp add: agregar_records_def row_dict_def new_row_def)
  have st: "fst (agregar_store w student_id materia calificacion [])
        = Returns (Msg ''error'' ''La nota para ese ID y Materia ya existe'')
      \<or> fst (agregar_store w student_id materia calificacion []) = Returns ?ok
      \<or> (\<exists>e. fst (agregar_store w student_id materia calificacion []) = Raises e)"
  proof (cases "load_records w")
    case (Raises e)
    then show ?thesis by (simp add: agregar_store_def)
  next
    case (Returns records)
    with ar [of records] show ?thesis
      by (auto simp: agregar_store_def split: prod.splits)
  qed
  have good: "sent out \<noteq> Msg ''error'' ''ID_Estudiante no encontrado en estudiantes.csv''
          \<and> (status (sent out) = ''ok'' \<longrightarrow> out = Returns ?ok)"
    if "out = fst (agregar_store w student_id materia calificacion [])" for out
    using st that
    by (auto simp: sent_simps excepcion_not_roster status_excepcion_not_ok)
  have con: "\<forall>out w'. handle_agregar py w [c, student_id, nombre, materia, calificacion]
                   = Some (out, w') \<longrightarrow>
            sent out \<noteq> Msg ''error'' ''ID_Estudiante no encontrado en estudiantes.csv''
          \<and> (status (sent out) = ''ok'' \<longrightarrow> out = Returns ?ok)"
  proof (intro allI impI)
    fix out w'
    assume h: "handle_agregar py w [c, student_id, nombre, materia, calificacion] = Some (out, w')"
    then consider (lookup) m where
        "out = Returns (Msg ''error'' (''Fallo validaci'' @ o_acute @ ''n NRC: '' @ m))"
      | (not_found) "out = Returns (Msg ''error'' (''NRC no encontrado: '' @ materia))"
      | (raises) e where "out = Raises e"
      | (records) "out = fst (agregar_store w student_id materia calificacion [])"
      by (simp add: handle_agregar_def Let_def nombre
            split: option.splits if_splits outcome.splits json.splits)
        auto
    then show "sent out \<noteq> Msg ''error'' ''ID_Estudiante no encontrado en estudiantes.csv''
          \<and> (status (sent out) = ''ok'' \<longrightarrow> out = Returns ?ok)"
    proof cases
      case lookup
      then show ?thesis by (simp add: sent_simps)
    next
      case not_found
      then show ?thesis by (simp add: sent_simps)
    next
      case raises
      then show ?thesis
        by (simp add: sent_simps excepcion_not_roster status_excepcion_not_ok)
    next
      case records
      then show ?thesis by (rule good)
    qed
  qed
  have con_ok: "\<forall>d records. consultar_nrc py w materia = Some (Returns (JObject d))
            \<and> d ''status'' \<noteq> Some (JStr ''error'')
            \<and> d ''status'' \<noteq> Some (JStr ''not_found'')
            \<and> load_records w = Returns records
            \<and> \<not> (\<exists>r \<in> set records. ID_Estudiante r = student_id \<and> Materia r = materia)
          \<longrightarrow> handle_agregar py w [c, student_id, nombre, materia, calificacion] =
                Some (Returns ?ok,
                      w\<lparr>calificaciones :=
                          records @ [new_row student_id materia calificacion]\<rparr>)"
    by (simp add: handle_agregar_def Let_def nombre agregar_store_def agregar_records_def
          dict_set_row_dict)
      (simp add: row_dict_def new_row_def)
  have sin: "fst (handle_agregar_sin_hilos w [c, student_id, materia, calificacion])
        = Returns (Msg ''error'' (''ID_Estudiante vac'' @ i_acute @ ''o''))
      \<or> fst (handle_agregar_sin_hilos w [c, student_id, materia, calificacion])
        = fst (agregar_store w student_id materia calificacion [])"
    by (simp add: handle_agregar_sin_hilos_def Let_def nombre)
  have sin12: "sent (fst (handle_agregar_sin_hilos w [c, student_id, materia, calificacion]))
         \<noteq> Msg ''error'' ''ID_Estudiante no encontrado en estudiantes.csv''
    \<and> (status (sent (fst (handle_agregar_sin_hilos w [c, student_id, materia, calificacion])))
          = ''ok''
         \<longrightarrow> fst (handle_agregar_sin_hilos w [c, student_id, materia, calificacion]) =
               Returns ?ok)"
    using sin
  proof
    assume "fst (handle_agregar_sin_hilos w [c, student_id, materia, calificacion])
        = Returns (Msg ''error'' (''ID_Estudiante vac'' @ i_acute @ ''o''))"
    then show ?thesis by (simp add: sent_simps i_acute_def)
  next
    assume "fst (handle_agregar_sin_hilos w [c, student_id, materia, calificacion])
        = fst (agregar_store w student_id materia calificacion [])"
    then show ?thesis by (rule good)
  qed
  note sin1 = sin12 [THEN conjunct1] and sin2 = sin12 [THEN conjunct2]
  have bus: "\<forall>rows. fst (handle_buscar w [c, student_id]) = Returns (Data ''ok'' (JList rows)) \<longrightarrow>
           (\<forall>rr \<in> set rows. ''Nombre'' \<notin> fst ` set rr)"
    using en
    by (auto simp: handle_buscar_def Let_def enrich_empty row_dict_def
          split: if_splits outcome.splits)
  have bus0: "fst (handle_buscar w [c, student_id]) = fst (handle_buscar w0 [c, student_id])"
    by (simp add: handle_buscar_def Let_def w0 enrich_same [OF empty] load_records_roster
          split: outcome.splits)
  have lis: "\<forall>rows. fst (handle_listar w [c]) = Returns (Data ''ok'' (JList rows)) \<longrightarrow>
           (\<forall>rr \<in> set rows. map_of rr ''ID_Estudiante'' = Some student_id \<longrightarrow>
              ''Nombre'' \<notin> fst ` set rr)"
  proof (intro allI impI ballI)
    fix rows rr
    assume "fst (handle_listar w [c]) = Returns (Data ''ok'' (JList rows))" and "rr \<in> set rows"
      and k: "map_of rr ''ID_Estudiante'' = Some student_id"
    then obtain r where rr: "rr = enrich (load_estudiantes_map (estudiantes w) (ID_Estudiante r))
        (row_dict r)"
      by (auto simp: handle_listar_def Let_def split: outcome.splits)
    with k have "ID_Estudiante r = student_id" by (simp add: enrich_id_key)
    with rr en show "''Nombre'' \<notin> fst ` set rr"
      by (auto simp: enrich_empty row_dict_def)
  qed
  have lis0: "fst (handle_listar w [c]) = fst (handle_listar w0 [c])"
    by (simp add: handle_listar_def Let_def w0 enrich_same [OF empty] load_records_roster
          split: outcome.splits)
  have g0: "get_estudiante_nombre (estudiantes w0) student_id = None"
    by (simp add: w0 get_estudiante_nombre_filter)
  have l0: "load_estudiantes_map (estudiantes w0) student_id = None"
    by (simp add: w0 load_estudiantes_map_filter)
  from con con_ok sin1 sin2 bus bus0 lis lis0 g0 l0 show ?thesis by (intro conjI)
qed

text \<open>
  Witness of C9: student 2 of the concrete roster has an empty Nombre. The insert
  answers ok with an empty Nombre; BUSCAR and LISTAR return the record of student 2
  without Nombre, while the record of student 1 carries one.
\<close>

theorem empty_roster_name_witness:
  "''2'' \<in> est_ID ` set (estudiantes (demo_world [new_row ''1'' ''MAT101'' ''10'']))
   \<and> handle_agregar demo_py (demo_world [new_row ''1'' ''MAT101'' ''10''])
        [''AGREGAR'', ''2'', ''x'', ''MAT101'', ''7'']
       = Some (Returns (Data ''ok'' (JObj [(''ID_Estudiante'', ''2''), (''Materia'', ''MAT101''),
                 (''Calificacion'', ''7''), (''Nombre'', [])])),
               demo_world [new_row ''1'' ''MAT101'' ''10'', new_row ''2'' ''MAT101'' ''7''])
   \<and> fst (handle_buscar (demo_world [new_row ''1'' ''MAT101'' ''10'', new_row ''2'' ''MAT101'' ''7''])
        [''BUSCAR'', ''2''])
       = Returns (Data ''ok'' (JList [[(''ID_Estudiante'', ''2''), (''Materia'', ''MAT101''),
                 (''Calificacion'', ''7'')]]))
   \<and> fst (handle_listar (demo_world [new_row ''1'' ''MAT101'' ''10'', new_row ''2'' ''MAT101'' ''7''])
        [''LISTAR''])
       = Returns (Data ''ok'' (JList [[(''ID_Estudiante'', ''1''), (''Materia'', ''MAT101''),
                 (''Calificacion'', ''10''), (''Nombre'', ''Ana'')],
               [(''ID_Estudiante'', ''2''), (''Materia'', ''MAT101''),
                 (''Calificacion'', ''7'')]]))"
proof -
  let ?one = "[new_row ''1'' ''MAT101'' ''10'']"
  let ?two = "[new_row ''1'' ''MAT101'' ''10'', new_row ''2'' ''MAT101'' ''7'']"
  let ?w = "demo_world ?one"
  let ?w' = "demo_world ?two"
  let ?absent = "\<lambda>records. \<lparr>calificaciones = records,
      estudiantes = [\<lparr>est_ID = ''1'', est_Nombre = ''Ana''\<rparr>],
      nrc_socket = demo_socket\<rparr>"
  have present: "\<And>records. ''2'' \<in> est_ID ` set (estudiantes (demo_world records))"
    by (simp add: demo_defs)
  have empty: "\<And>records. \<forall>row \<in> set (estudiantes (demo_world records)).
      est_ID row = ''2'' \<longrightarrow> est_Nombre row = []"
    by (simp add: demo_defs)
  have w0: "\<And>records. ?absent records = (demo_world records)\<lparr>estudiantes :=
      filter (\<lambda>row. est_ID row \<noteq> ''2'') (estudiantes (demo_world records))\<rparr>"
    by (simp add: demo_defs)
  have lookup: "consultar_nrc demo_py ?w ''MAT101''
      = Some (Returns (JObject [''status'' \<mapsto> JStr ''ok'', ''data'' \<mapsto> JOther ''{...}'']))"
    by (simp add: nrc_defs demo_defs demo_py_def)
  have ld: "load_records ?w = Returns ?one"
    by (rule load_records_demo) (simp add: readable_short)
  have new: "\<not> (\<exists>r \<in> set ?one. ID_Estudiante r = ''2'' \<and> Materia r = ''MAT101'')"
    by (simp add: new_row_def)
  have w': "?w\<lparr>calificaciones := ?one @ [new_row ''2'' ''MAT101'' ''7'']\<rparr> = ?w'"
    by (simp add: demo_world_def)
  have ld0: "load_records (?absent ?two) = Returns ?two"
    by (simp add: load_records_def readable_short)
  have b0: "fst (handle_buscar (?absent ?two) [''BUSCAR'', ''2''])
       = Returns (Data ''ok'' (JList [[(''ID_Estudiante'', ''2''), (''Materia'', ''MAT101''),
                 (''Calificacion'', ''7'')]]))"
    by (simp add: handle_buscar_def ld0)
      (simp add: load_estudiantes_map_def enrich_def new_row_def row_dict_def Let_def)
  have l0: "fst (handle_listar (?absent ?two) [''LISTAR''])
       = Returns (Data ''ok'' (JList [[(''ID_Estudiante'', ''1''), (''Materia'', ''MAT101''),
                 (''Calificacion'', ''10''), (''Nombre'', ''Ana'')],
               [(''ID_Estudiante'', ''2''), (''Materia'', ''MAT101''),
                 (''Calificacion'', ''7'')]]))"
    by (simp add: handle_listar_def ld0)
      (simp add: load_estudiantes_map_def enrich_def new_row_def row_dict_def Let_def)
  note t1 = empty_roster_name [OF present [of ?one] empty [of ?one] w0 [of ?one],
      where c = "''AGREGAR''" and nombre = "''x''" and materia = "''MAT101''"
      and calificacion = "''7''" and py = demo_py, THEN conjunct2, THEN conjunct1, rule_format]
  note t2 = empty_roster_name [OF present [of ?two] empty [of ?two] w0 [of ?two],
      where c = "''BUSCAR''", THEN conjunct2, THEN conjunct2, THEN conjunct2,
      THEN conjunct2, THEN conjunct2, THEN conjunct1]
  note t3 = empty_roster_name [OF present [of ?two] empty [of ?two] w0 [of ?two],
      where c = "''LISTAR''", THEN conjunct2, THEN conjunct2, THEN conjunct2,
      THEN conjunct2, THEN conjunct2, THEN conjunct2, THEN conjunct2, THEN conjunct1]
  have "handle_agregar demo_py ?w [''AGREGAR'', ''2'', ''x'', ''MAT101'', ''7'']
       = Some (Returns (Data ''ok'' (JObj [(''ID_Estudiante'', ''2''), (''Materia'', ''MAT101''),
                 (''Calificacion'', ''7''), (''Nombre'', [])])),
               ?w\<lparr>calificaciones := ?one @ [new_row ''2'' ''MAT101'' ''7'']\<rparr>)"
  proof (rule t1 [where d = "[''status'' \<mapsto> JStr ''ok'', ''data'' \<mapsto> JOther ''{...}'']"],
      intro conjI)
    show "consultar_nrc demo_py ?w ''MAT101''
      = Some (Returns (JObject [''status'' \<mapsto> JStr ''ok'', ''data'' \<mapsto> JOther ''{...}'']))"
      by (rule lookup)
    show "load_records ?w = Returns ?one" by (rule ld)
    show "\<not> (\<exists>r \<in> set ?one. ID_Estudiante r = ''2'' \<and> Materia r = ''MAT101'')"
      by (rule new)
  qed simp_all
  then have a: "handle_agregar demo_py ?w [''AGREGAR'', ''2'', ''x'', ''MAT101'', ''7'']
       = Some (Returns (Data ''ok'' (JObj [(''ID_Estudiante'', ''2''), (''Materia'', ''MAT101''),
                 (''Calificacion'', ''7''), (''Nombre'', [])])), ?w')"
    by (simp only: w')
  have b: "fst (handle_buscar ?w' [''BUSCAR'', ''2''])
       = Returns (Data ''ok'' (JList [[(''ID_Estudiante'', ''2''), (''Materia'', ''MAT101''),
                 (''Calificacion'', ''7'')]]))"
    by (rule trans [OF t2 b0])
  have l: "fst (handle_listar ?w' [''LISTAR''])
       = Returns (Data ''ok'' (JList [[(''ID_Estudiante'', ''1''), (''Materia'', ''MAT101''),
                 (''Calificacion'', ''10''), (''Nombre'', ''Ana'')],
               [(''ID_Estudiante'', ''2''), (''Materia'', ''MAT101''),
                 (''Calificacion'', ''7'')]]))"
    by (rule trans [OF t3 l0])
  from present [of "[new_row ''1'' ''MAT101'' ''10'']"] a b l show ?thesis by (intro conjI)
qed

section \<open>The signature of AGREGAR\<close>

text \<open>
  Claim C4 as stated fails on the concurrent server: \<open>handle_agregar\<close> of
  \<open>con_hilos/server.py\<close> asks for five fields (\<open>AGREGAR|id|nombre|materia|calificacion\<close>,
  as its module text documents), so the line with the three arguments student id, subject
  code and grade is answered with the format error, whatever the world.
\<close>

theorem insert_three_arguments_counterexample:
  "process_command demo_py (demo_world []) ''AGREGAR|1|MAT101|10''
     = Some (Returns (Msg ''error'' (''Formato inv'' @ a_acute @ ''lido para AGREGAR'')),
             demo_world [])"
proof -
  have pl: "parse_line demo_py ''AGREGAR|1|MAT101|10'' = [''AGREGAR'', ''1'', ''MAT101'', ''10'']"
    by (simp add: parse_line_def py_defs)
  have up: "str_upper demo_py ''AGREGAR'' = ''AGREGAR''"
    by (simp add: py_defs)
  show ?thesis by (simp add: process_command_def pl up handle_agregar_def)
qed

lemma agregar_records_cases:
  "agregar_records records student_id materia calificacion n =
     (Msg ''error'' ''La nota para ese ID y Materia ya existe'', records)
   \<or> agregar_records records student_id materia calificacion n =
     (Data ''ok'' (JObj [(''ID_Estudiante'', student_id), (''Materia'', materia),
        (''Calificacion'', calificacion), (''Nombre'', n)]),
      records @ [new_row student_id materia calificacion])"
  by (simp add: agregar_records_def dict_set_row_dict) (simp add: row_dict_def new_row_def)

lemma agregar_store_cases:
  "(\<exists>e. agregar_store w student_id materia calificacion n = (Raises e, w))
   \<or> agregar_store w student_id materia calificacion n =
     (Returns (Msg ''error'' ''La nota para ese ID y Materia ya existe''), w)
   \<or> agregar_store w student_id materia calificacion n =
     (Returns (Data ''ok'' (JObj [(''ID_Estudiante'', student_id), (''Materia'', materia),
        (''Calificacion'', calificacion), (''Nombre'', n)])),
      w\<lparr>calificaciones := calificaciones w @ [new_row student_id materia calificacion]\<rparr>)"
proof (cases "load_records w")
  case (Raises e)
  then show ?thesis by (simp add: agregar_store_def)
next
  case (Returns records)
  then have eq: "records = calificaciones w" by (rule load_records_Returns)
  from agregar_records_cases [of records student_id materia calificacion n] Returns
  show ?thesis by (auto simp: agregar_store_def eq)
qed

lemma excepcion_not_format:
  "excepcion e \<noteq> Msg s (CHR ''F'' # m)"
  by (simp add: excepcion_def)

lemma handle_agregar_sin_hilos_four:
  shows "sent (fst (handle_agregar_sin_hilos w [cmd, student_id, materia, calificacion])) \<noteq>
     Msg ''error''
       (''Formato inv'' @ a_acute @ ''lido para AGREGAR. Usa: AGREGAR|ID|Materia|Calificacion'')"
  and "status (sent (fst (handle_agregar_sin_hilos w [cmd, student_id, materia, calificacion])))
         = ''ok''
     \<Longrightarrow> \<exists>n. get_estudiante_nombre (estudiantes w) student_id = Some n
       \<and> handle_agregar_sin_hilos w [cmd, student_id, materia, calificacion] =
           (Returns (Data ''ok'' (JObj [(''ID_Estudiante'', student_id), (''Materia'', materia),
              (''Calificacion'', calificacion), (''Nombre'', n)])),
            w\<lparr>calificaciones := calificaciones w @ [new_row student_id materia calificacion]\<rparr>)"
proof -
  consider (vacio) "student_id = []"
    | (missing) "student_id \<noteq> []" "get_estudiante_nombre (estudiantes w) student_id = None"
    | (known) n where "student_id \<noteq> []"
        "get_estudiante_nombre (estudiantes w) student_id = Some n"
    by (cases "get_estudiante_nombre (estudiantes w) student_id") auto
  then have "sent (fst (handle_agregar_sin_hilos w [cmd, student_id, materia, calificacion])) \<noteq>
     Msg ''error''
       (''Formato inv'' @ a_acute @ ''lido para AGREGAR. Usa: AGREGAR|ID|Materia|Calificacion'')
   \<and> (status (sent (fst (handle_agregar_sin_hilos w [cmd, student_id, materia, calificacion])))
         = ''ok''
     \<longrightarrow> (\<exists>n. get_estudiante_nombre (estudiantes w) student_id = Some n
       \<and> handle_agregar_sin_hilos w [cmd, student_id, materia, calificacion] =
           (Returns (Data ''ok'' (JObj [(''ID_Estudiante'', student_id), (''Materia'', materia),
              (''Calificacion'', calificacion), (''Nombre'', n)])),
            w\<lparr>calificaciones := calificaciones w @ [new_row student_id materia calificacion]\<rparr>)))"
  proof cases
    case vacio
    then show ?thesis by (simp add: handle_agregar_sin_hilos_def sent_simps)
  next
    case missing
    then show ?thesis by (simp add: handle_agregar_sin_hilos_def sent_simps)
  next
    case known
    with agregar_store_cases [of w student_id materia calificacion n]
    show ?thesis
      by (auto simp: handle_agregar_sin_hilos_def sent_simps excepcion_not_format
            status_excepcion_not_ok)
  qed
  then show "sent (fst (handle_agregar_sin_hilos w [cmd, student_id, materia, calificacion])) \<noteq>
     Msg ''error''
       (''Formato inv'' @ a_acute @ ''lido para AGREGAR. Usa: AGREGAR|ID|Materia|Calificacion'')"
    and "status (sent (fst (handle_agregar_sin_hilos w [cmd, student_id, materia, calificacion])))
         = ''ok''
     \<Longrightarrow> \<exists>n. get_estudiante_nombre (estudiantes w) student_id = Some n
       \<and> handle_agregar_sin_hilos w [cmd, student_id, materia, calificacion] =
           (Returns (Data ''ok'' (JObj [(''ID_Estudiante'', student_id), (''Materia'', materia),
              (''Calificacion'', calificacion), (''Nombre'', n)])),
            w\<lparr>calificaciones := calificaciones w @ [new_row student_id materia calificacion]\<rparr>)"
    by simp_all
qed

lemma handle_agregar_five:
  assumes "handle_agregar py w [cmd, student_id, nombre, materia, calificacion] = Some (out, w')"
  shows "sent out \<noteq> Msg ''error'' (''Formato inv'' @ a_acute @ ''lido para AGREGAR'')"
    and "status (sent out) = ''ok'' \<Longrightarrow>
      \<exists>n. get_estudiante_nombre (estudiantes w) student_id = Some n
        \<and> out = Returns (Data ''ok'' (JObj [(''ID_Estudiante'', student_id), (''Materia'', materia),
              (''Calificacion'', calificacion), (''Nombre'', n)]))
        \<and> w' = w\<lparr>calificaciones := calificaciones w @ [new_row student_id materia calificacion]\<rparr>"
proof -
  from assms consider
      (lookup) m where
        "out = Returns (Msg ''error'' (''Fallo validaci'' @ o_acute @ ''n NRC: '' @ m))"
    | (not_found) "out = Returns (Msg ''error'' (''NRC no encontrado: '' @ materia))"
    | (missing) "out = Returns (Msg ''error'' ''ID_Estudiante no encontrado en estudiantes.csv'')"
    | (raises) e where "out = Raises e"
    | (known) n where "get_estudiante_nombre (estudiantes w) student_id = Some n"
        "(out, w') = agregar_store w student_id materia calificacion n"
    by (simp add: handle_agregar_def Let_def
          split: option.splits if_splits outcome.splits json.splits)
      auto
  then have "sent out \<noteq> Msg ''error'' (''Formato inv'' @ a_acute @ ''lido para AGREGAR'')
    \<and> (status (sent out) = ''ok'' \<longrightarrow>
      (\<exists>n. get_estudiante_nombre (estudiantes w) student_id = Some n
        \<and> out = Returns (Data ''ok'' (JObj [(''ID_Estudiante'', student_id), (''Materia'', materia),
              (''Calificacion'', calificacion), (''Nombre'', n)]))
        \<and> w' = w\<lparr>calificaciones := calificaciones w @ [new_row student_id materia calificacion]\<rparr>))"
  proof cases
    case lookup
    then show ?thesis by (simp add: sent_simps)
  next
    case not_found
    then show ?thesis by (simp add: sent_simps)
  next
    case missing
    then show ?thesis by (simp add: sent_simps)
  next
    case raises
    then show ?thesis by (simp add: sent_simps excepcion_not_format status_excepcion_not_ok)
  next
    case known
    with agregar_store_cases [of w student_id materia calificacion n]
    show ?thesis
      by (auto simp: sent_simps excepcion_not_format status_excepcion_not_ok)
  qed
  then show "sent out \<noteq> Msg ''error'' (''Formato inv'' @ a_acute @ ''lido para AGREGAR'')"
    and "status (sent out) = ''ok'' \<Longrightarrow>
      \<exists>n. get_estudiante_nombre (estudiantes w) student_id = Some n
        \<and> out = Returns (Data ''ok'' (JObj [(''ID_Estudiante'', student_id), (''Materia'', materia),
              (''Calificacion'', calificacion), (''Nombre'', n)]))
        \<and> w' = w\<lparr>calificaciones := calificaciones w @ [new_row student_id materia calificacion]\<rparr>"
    by simp_all
qed

text \<open>
  Claim C4, amended. The sequential server takes AGREGAR with exactly the three arguments
  student id, subject code and grade: with them what the handler answers is not the
  format error, and any other number of fields is answered with it. The concurrent
  server takes exactly four arguments, student id, a name it does not read, subject code
  and grade, and answers any other number with its format error. In both, an answer of
  status ok is a returned response that echoes the record that was appended to the
  store, with the Nombre the roster gives for the student.
\<close>

theorem insert_signature:
  "sent (fst (handle_agregar_sin_hilos w [cmd, student_id, materia, calificacion])) \<noteq>
     Msg ''error''
       (''Formato inv'' @ a_acute @ ''lido para AGREGAR. Usa: AGREGAR|ID|Materia|Calificacion'')
   \<and> (status (sent (fst (handle_agregar_sin_hilos w [cmd, student_id, materia, calificacion])))
         = ''ok''
     \<longrightarrow> (\<exists>n. get_estudiante_nombre (estudiantes w) student_id = Some n
       \<and> handle_agregar_sin_hilos w [cmd, student_id, materia, calificacion] =
           (Returns (Data ''ok'' (JObj [(''ID_Estudiante'', student_id), (''Materia'', materia),
              (''Calificacion'', calificacion), (''Nombre'', n)])),
            w\<lparr>calificaciones := calificaciones w @ [new_row student_id materia calificacion]\<rparr>)))
   \<and> (length parts \<noteq> 4 \<longrightarrow>
        handle_agregar_sin_hilos w parts =
          (Returns (Msg ''error''
             (''Formato inv'' @ a_acute
              @ ''lido para AGREGAR. Usa: AGREGAR|ID|Materia|Calificacion'')), w))
   \<and> (\<forall>out w'. handle_agregar py w [cmd, student_id, nombre, materia, calificacion]
                = Some (out, w')
        \<longrightarrow> sent out \<noteq> Msg ''error'' (''Formato inv'' @ a_acute @ ''lido para AGREGAR'')
          \<and> (status (sent out) = ''ok'' \<longrightarrow>
               (\<exists>n. get_estudiante_nombre (estudiantes w) student_id = Some n
                 \<and> out = Returns (Data ''ok'' (JObj [(''ID_Estudiante'', student_id),
                       (''Materia'', materia), (''Calificacion'', calificacion),
                       (''Nombre'', n)]))
                 \<and> w' = w\<lparr>calificaciones :=
                            calificaciones w @ [new_row student_id materia calificacion]\<rparr>)))
   \<and> (length parts \<noteq> 5 \<longrightarrow>
        handle_agregar py w parts =
          Some (Returns (Msg ''error'' (''Formato inv'' @ a_acute @ ''lido para AGREGAR'')), w))"
proof (intro conjI allI impI)
  show "sent (fst (handle_agregar_sin_hilos w [cmd, student_id, materia, calificacion])) \<noteq>
     Msg ''error''
       (''Formato inv'' @ a_acute @ ''lido para AGREGAR. Usa: AGREGAR|ID|Materia|Calificacion'')"
    by (rule handle_agregar_sin_hilos_four(1))
next
  assume "status (sent (fst (handle_agregar_sin_hilos w [cmd, student_id, materia, calificacion])))
         = ''ok''"
  then show "\<exists>n. get_estudiante_nombre (estudiantes w) student_id = Some n
       \<and> handle_agregar_sin_hilos w [cmd, student_id, materia, calificacion] =
           (Returns (Data ''ok'' (JObj [(''ID_Estudiante'', student_id), (''Materia'', materia),
              (''Calificacion'', calificacion), (''Nombre'', n)])),
            w\<lparr>calificaciones := calificaciones w @ [new_row student_id materia calificacion]\<rparr>)"
    by (rule handle_agregar_sin_hilos_four(2))
next
  assume "length parts \<noteq> 4"
  then show "handle_agregar_sin_hilos w parts =
          (Returns (Msg ''error''
             (''Formato inv'' @ a_acute
              @ ''lido para AGREGAR. Usa: AGREGAR|ID|Materia|Calificacion'')), w)"
    by (simp add: handle_agregar_sin_hilos_def)
next
  fix out w'
  assume "handle_agregar py w [cmd, student_id, nombre, materia, calificacion] = Some (out, w')"
  then show "sent out \<noteq> Msg ''error'' (''Formato inv'' @ a_acute @ ''lido para AGREGAR'')"
    by (rule handle_agregar_five(1))
next
  fix out w'
  assume "handle_agregar py w [cmd, student_id, nombre, materia, calificacion] = Some (out, w')"
    and "status (sent out) = ''ok''"
  then show "\<exists>n. get_estudiante_nombre (estudiantes w) student_id = Some n
                 \<and> out = Returns (Data ''ok'' (JObj [(''ID_Estudiante'', student_id),
                       (''Materia'', materia), (''Calificacion'', calificacion),
                       (''Nombre'', n)]))
                 \<and> w' = w\<lparr>calificaciones :=
                            calificaciones w @ [new_row student_id materia calificacion]\<rparr>"
    by (rule handle_agregar_five(2))
next
  assume "length parts \<noteq> 5"
  then show "handle_agregar py w parts =
          Some (Returns (Msg ''error'' (''Formato inv'' @ a_acute @ ''lido para AGREGAR'')), w)"
    by (simp add: handle_agregar_def)
qed

text \<open>
  Witness of C4 as amended: three arguments are accepted by the sequential handler and
  four by the concurrent one; one argument fewer gives the format error of each.
\<close>

theorem insert_signature_witness:
  "status (sent (fst (handle_agregar_sin_hilos (demo_world [])
      [''AGREGAR'', ''1'', ''MAT101'', ''10'']))) = ''ok''
   \<and> handle_agregar_sin_hilos (demo_world []) [''AGREGAR'', ''1'', ''MAT101'', ''10'']
       = (Returns (Data ''ok'' (JObj [(''ID_Estudiante'', ''1''), (''Materia'', ''MAT101''),
            (''Calificacion'', ''10''), (''Nombre'', ''Ana'')])),
          demo_world [new_row ''1'' ''MAT101'' ''10''])
   \<and> handle_agregar_sin_hilos (demo_world []) [''AGREGAR'', ''1'', ''MAT101'']
       = (Returns (Msg ''error''
            (''Formato inv'' @ a_acute
             @ ''lido para AGREGAR. Usa: AGREGAR|ID|Materia|Calificacion'')), demo_world [])
   \<and> handle_agregar demo_py (demo_world []) [''AGREGAR'', ''1'', ''x'', ''MAT101'', ''10'']
       = Some (Returns (Data ''ok'' (JObj [(''ID_Estudiante'', ''1''), (''Materia'', ''MAT101''),
                 (''Calificacion'', ''10''), (''Nombre'', ''Ana'')])),
               demo_world [new_row ''1'' ''MAT101'' ''10''])
   \<and> handle_agregar demo_py (demo_world []) [''AGREGAR'', ''1'', ''x'', ''MAT101'']
       = Some (Returns (Msg ''error'' (''Formato inv'' @ a_acute @ ''lido para AGREGAR'')),
               demo_world [])"
proof -
  let ?w = "demo_world []"
  have ld: "load_records ?w = Returns []"
    by (rule load_records_demo) simp
  have g: "get_estudiante_nombre (estudiantes ?w) ''1'' = Some ''Ana''"
    by (simp add: demo_defs)
  have ag: "agregar_store ?w ''1'' ''MAT101'' ''10'' ''Ana''
       = (Returns (Data ''ok'' (JObj [(''ID_Estudiante'', ''1''), (''Materia'', ''MAT101''),
            (''Calificacion'', ''10''), (''Nombre'', ''Ana'')])),
          demo_world [new_row ''1'' ''MAT101'' ''10''])"
    by (simp add: agregar_store_def ld agregar_records_def) (simp add: demo_defs)
  have s4: "handle_agregar_sin_hilos ?w [''AGREGAR'', ''1'', ''MAT101'', ''10'']
       = (Returns (Data ''ok'' (JObj [(''ID_Estudiante'', ''1''), (''Materia'', ''MAT101''),
            (''Calificacion'', ''10''), (''Nombre'', ''Ana'')])),
          demo_world [new_row ''1'' ''MAT101'' ''10''])"
    by (simp add: handle_agregar_sin_hilos_def g ag Let_def)
  then have ok: "status (sent (fst (handle_agregar_sin_hilos ?w
      [''AGREGAR'', ''1'', ''MAT101'', ''10'']))) = ''ok''"
    by (simp add: sent_simps)
  have lookup: "consultar_nrc demo_py ?w ''MAT101''
      = Some (Returns (JObject [''status'' \<mapsto> JStr ''ok'', ''data'' \<mapsto> JOther ''{...}'']))"
    by (simp add: nrc_defs demo_defs demo_py_def)
  have c5: "handle_agregar demo_py ?w [''AGREGAR'', ''1'', ''x'', ''MAT101'', ''10'']
       = Some (Returns (Data ''ok'' (JObj [(''ID_Estudiante'', ''1''), (''Materia'', ''MAT101''),
                 (''Calificacion'', ''10''), (''Nombre'', ''Ana'')])),
               demo_world [new_row ''1'' ''MAT101'' ''10''])"
    by (simp add: handle_agregar_def lookup g ag Let_def)
  have n3: "length [''AGREGAR'', ''1'', ''MAT101''] \<noteq> 4"
    and n4: "length [''AGREGAR'', ''1'', ''x'', ''MAT101''] \<noteq> 5"
    by simp_all
  note s3 = insert_signature [where w = ?w and parts = "[''AGREGAR'', ''1'', ''MAT101'']",
      THEN conjunct2, THEN conjunct2, THEN conjunct1, rule_format, OF n3]
  note c4 = insert_signature [where w = ?w and parts = "[''AGREGAR'', ''1'', ''x'', ''MAT101'']"
      and py = demo_py,
      THEN conjunct2, THEN conjunct2, THEN conjunct2, THEN conjunct2, rule_format, OF n4]
  from ok s4 s3 c5 c4 show ?thesis by (intro conjI)
qed

section \<open>The catalog gate\<close>

text \<open>
  Claim C3 as stated fails on the sequential server: \<open>sin_hilos/server.py\<close> has no
  NRC client and \<open>handle_agregar\<close> there never asks the catalog. In the concrete
  world the catalog answers \<open>not_found\<close> for the code XXX, and the sequential insert
  of that code succeeds and changes the store.
\<close>

theorem catalog_gate_sequential_counterexample:
  "consultar_nrc demo_py (demo_world []) ''XXX''
     = Some (Returns (JObject [''status'' \<mapsto> JStr ''not_found'']))
   \<and> process_command_sin_hilos demo_py (demo_world []) ''AGREGAR|1|XXX|10''
       = (Returns (Data ''ok'' (JObj [(''ID_Estudiante'', ''1''), (''Materia'', ''XXX''),
            (''Calificacion'', ''10''), (''Nombre'', ''Ana'')])),
          demo_world [new_row ''1'' ''XXX'' ''10''])"
proof -
  have lookup: "consultar_nrc demo_py (demo_world []) ''XXX''
      = Some (Returns (JObject [''status'' \<mapsto> JStr ''not_found'']))"
    by (simp add: nrc_defs demo_defs demo_py_def)
  have pl: "parse_line demo_py ''AGREGAR|1|XXX|10'' = [''AGREGAR'', ''1'', ''XXX'', ''10'']"
    by (simp add: parse_line_def py_defs)
  have up: "str_upper demo_py ''AGREGAR'' = ''AGREGAR''"
    by (simp add: py_defs)
  have ld: "load_records (demo_world []) = Returns []"
    by (rule load_records_demo) simp
  have g: "get_estudiante_nombre (estudiantes (demo_world [])) ''1'' = Some ''Ana''"
    by (simp add: demo_defs)
  have ag: "agregar_store (demo_world []) ''1'' ''XXX'' ''10'' ''Ana''
       = (Returns (Data ''ok'' (JObj [(''ID_Estudiante'', ''1''), (''Materia'', ''XXX''),
            (''Calificacion'', ''10''), (''Nombre'', ''Ana'')])),
          demo_world [new_row ''1'' ''XXX'' ''10''])"
    by (simp add: agregar_store_def ld agregar_records_def) (simp add: demo_defs)
  have ins: "process_command_sin_hilos demo_py (demo_world []) ''AGREGAR|1|XXX|10''
       = (Returns (Data ''ok'' (JObj [(''ID_Estudiante'', ''1''), (''Materia'', ''XXX''),
            (''Calificacion'', ''10''), (''Nombre'', ''Ana'')])),
          demo_world [new_row ''1'' ''XXX'' ''10''])"
    by (simp add: process_command_sin_hilos_def pl up handle_agregar_sin_hilos_def g ag Let_def)
  from lookup ins show ?thesis by (intro conjI)
qed

text \<open>
  The sequential handler does not read the NRC service (and it is given nothing of the
  standard library: it never calls \<open>json.loads\<close>).
\<close>

lemma agregar_store_no_catalog:
  "agregar_store (w\<lparr>nrc_socket := s\<rparr>) student_id materia calificacion n =
     (fst (agregar_store w student_id materia calificacion n),
      (snd (agregar_store w student_id materia calificacion n))\<lparr>nrc_socket := s\<rparr>)"
  by (simp add: agregar_store_def load_records_def Let_def split: prod.splits)

lemma handle_agregar_sin_hilos_no_catalog:
  "handle_agregar_sin_hilos (w\<lparr>nrc_socket := s\<rparr>) parts =
     (fst (handle_agregar_sin_hilos w parts),
      (snd (handle_agregar_sin_hilos w parts))\<lparr>nrc_socket := s\<rparr>)"
  by (simp add: handle_agregar_sin_hilos_def Let_def agregar_store_no_catalog
        split: option.splits)

text \<open>
  Claim C3, amended. In the concurrent server every AGREGAR with its four arguments asks
  the catalog of the world it runs in: when that lookup reports \<open>not_found\<close> the
  insert answers the error \<open>NRC no encontrado\<close> with the code and leaves the world as it
  was, and this message is none of those given for a failed lookup. Nothing is kept from
  an earlier request: after an insert of the same code that succeeded, a catalog that now
  reports \<open>not_found\<close> makes the next insert fail. The sequential server performs no
  catalog lookup; its AGREGAR is the same whatever the catalog answers.
\<close>

theorem catalog_gate:
  assumes lookup: "consultar_nrc py w materia = Some (Returns (JObject d))"
    and not_found: "d ''status'' = Some (JStr ''not_found'')"
  shows "handle_agregar py w [cmd, student_id, nombre, materia, calificacion] =
           Some (Returns (Msg ''error'' (''NRC no encontrado: '' @ materia)), w)
    \<and> (\<forall>m. ''NRC no encontrado: '' @ materia \<noteq> ''Fallo validaci'' @ o_acute @ ''n NRC: '' @ m)
    \<and> (\<forall>w0 cmd0 student_id0 nombre0 calificacion0 x s.
          handle_agregar py w0 [cmd0, student_id0, nombre0, materia, calificacion0] =
            Some (Returns (Data ''ok'' x), w)
          \<and> consultar_nrc py (w\<lparr>nrc_socket := s\<rparr>) materia = Some (Returns (JObject d))
          \<longrightarrow> handle_agregar py (w\<lparr>nrc_socket := s\<rparr>)
                 [cmd, student_id, nombre, materia, calificacion] =
                Some (Returns (Msg ''error'' (''NRC no encontrado: '' @ materia)),
                      w\<lparr>nrc_socket := s\<rparr>))
    \<and> (\<forall>s parts. handle_agregar_sin_hilos (w\<lparr>nrc_socket := s\<rparr>) parts =
          (fst (handle_agregar_sin_hilos w parts),
           (snd (handle_agregar_sin_hilos w parts))\<lparr>nrc_socket := s\<rparr>))"
proof (intro conjI allI impI)
  show "handle_agregar py w [cmd, student_id, nombre, materia, calificacion] =
           Some (Returns (Msg ''error'' (''NRC no encontrado: '' @ materia)), w)"
    by (simp add: handle_agregar_def lookup not_found)
next
  fix m
  show "''NRC no encontrado: '' @ materia \<noteq> ''Fallo validaci'' @ o_acute @ ''n NRC: '' @ m"
    by simp
next
  fix w0 cmd0 student_id0 nombre0 calificacion0 x s
  assume "handle_agregar py w0 [cmd0, student_id0, nombre0, materia, calificacion0] =
            Some (Returns (Data ''ok'' x), w)
          \<and> consultar_nrc py (w\<lparr>nrc_socket := s\<rparr>) materia = Some (Returns (JObject d))"
  then have "consultar_nrc py (w\<lparr>nrc_socket := s\<rparr>) materia = Some (Returns (JObject d))"
    by simp
  then show "handle_agregar py (w\<lparr>nrc_socket := s\<rparr>)
                 [cmd, student_id, nombre, materia, calificacion] =
                Some (Returns (Msg ''error'' (''NRC no encontrado: '' @ materia)),
                      w\<lparr>nrc_socket := s\<rparr>)"
    by (simp add: handle_agregar_def not_found)
next
  fix s parts
  show "handle_agregar_sin_hilos (w\<lparr>nrc_socket := s\<rparr>) parts =
          (fst (handle_agregar_sin_hilos w parts),
           (snd (handle_agregar_sin_hilos w parts))\<lparr>nrc_socket := s\<rparr>)"
    by (rule handle_agregar_sin_hilos_no_catalog)
qed

text \<open>
  Witness of C3 as amended: the concurrent insert of the code XXX, which the catalog of
  the concrete world reports as not found, is refused and the store stays empty.
\<close>

theorem catalog_gate_witness:
  "consultar_nrc demo_py (demo_world []) ''XXX''
     = Some (Returns (JObject [''status'' \<mapsto> JStr ''not_found'']))
   \<and> handle_agregar demo_py (demo_world []) [''AGREGAR'', ''1'', ''x'', ''XXX'', ''10'']
       = Some (Returns (Msg ''error'' ''NRC no encontrado: XXX''), demo_world [])"
proof -
  have lookup: "consultar_nrc demo_py (demo_world []) ''XXX''
      = Some (Returns (JObject [''status'' \<mapsto> JStr ''not_found'']))"
    by (simp add: nrc_defs demo_defs demo_py_def)
  have not_found: "[''status'' \<mapsto> JStr ''not_found''] ''status'' = Some (JStr ''not_found'')"
    by simp
  note t = catalog_gate [OF lookup not_found, where cmd = "''AGREGAR''" and student_id = "''1''"
      and nombre = "''x''" and calificacion = "''10''", THEN conjunct1]
  from lookup t show ?thesis by simp
qed

section \<open>The catalog lookup: when it returns, and with what\<close>

lemma recv_loop_ends:
  "\<forall>k<n. \<not> ends (rcv (i + k)) \<Longrightarrow> ends (rcv (i + n)) \<Longrightarrow>
   recv_loop rcv i data =
     Some (case rcv (i + n) of
             Recv_raises e \<Rightarrow> Inl e
           | Bytes chunk \<Rightarrow> Inr (data @ gathered rcv i n))"
proof (induction n arbitrary: i data)
  case 0
  then show ?case
    by (subst recv_loop.simps) (auto simp: ends_def chunk_of_def split: recv.splits)
next
  case (Suc n)
  from Suc.prems(1) have first: "\<not> ends (rcv i)"
    by (metis add.right_neutral zero_less_Suc)
  then obtain chunk where chunk: "rcv i = Bytes chunk" "chunk \<noteq> []" "newline \<notin> set chunk"
    by (auto simp: ends_def split: recv.splits)
  have "\<forall>k<n. \<not> ends (rcv (Suc i + k))"
    using Suc.prems(1) by (metis Suc_less_eq add_Suc_shift)
  moreover have "ends (rcv (Suc i + n))"
    using Suc.prems(2) by simp
  ultimately have "recv_loop rcv (Suc i) (data @ chunk) =
     Some (case rcv (Suc i + n) of
             Recv_raises e \<Rightarrow> Inl e
           | Bytes c \<Rightarrow> Inr ((data @ chunk) @ gathered rcv (Suc i) n))"
    by (rule Suc.IH)
  then show ?case
    using chunk by (subst recv_loop.simps) (simp add: chunk_of_def split: recv.splits)
qed

lemma recv_loop_returns:
  assumes r: "recv_loop rcv i data = Some y"
  shows "\<exists>n. ends (rcv n)"
proof (rule recv_loop.raw_induct [where P = "\<lambda>rcv i data y. \<exists>n. ends (rcv n)", OF _ r])
  fix f :: "(nat \<Rightarrow> recv) \<Rightarrow> nat \<Rightarrow> string \<Rightarrow> (string + string) option"
    and rcv i data y
  assume IH: "\<And>rcv i data y. f rcv i data = Some y \<Longrightarrow> \<exists>n. ends (rcv n)"
    and step: "(case rcv i of
        Bytes chunk \<Rightarrow>
          if chunk = [] then Some (Inr data)
          else if newline \<in> set chunk then Some (Inr (data @ chunk))
          else f rcv (Suc i) (data @ chunk)
      | Recv_raises e \<Rightarrow> Some (Inl e)) = Some y"
  show "\<exists>n. ends (rcv n)"
  proof (cases "ends (rcv i)")
    case True
    then show ?thesis by blast
  next
    case False
    then obtain chunk where "rcv i = Bytes chunk" "chunk \<noteq> []" "newline \<notin> set chunk"
      by (auto simp: ends_def split: recv.splits)
    with step have "f rcv (Suc i) (data @ chunk) = Some y"
      by simp
    then show ?thesis by (rule IH)
  qed
qed

lemma first_end:
  fixes rcv :: "nat \<Rightarrow> recv"
  assumes "ends (rcv m)"
  obtains n where "\<forall>k<n. \<not> ends (rcv k)" and "ends (rcv n)"
proof -
  from assms have "\<exists>n. ends (rcv n) \<and> (\<forall>k<n. \<not> ends (rcv k))"
    using exists_least_iff [of "\<lambda>n. ends (rcv n)"] by blast
  then show ?thesis using that by blast
qed

lemma recv_loop_terminates:
  "(\<exists>y. recv_loop rcv 0 [] = Some y) \<longleftrightarrow> (\<exists>n. ends (rcv n))"
proof
  assume "\<exists>y. recv_loop rcv 0 [] = Some y"
  then show "\<exists>n. ends (rcv n)" using recv_loop_returns by blast
next
  assume "\<exists>n. ends (rcv n)"
  then obtain m where "ends (rcv m)" ..
  then obtain n where "\<forall>k<n. \<not> ends (rcv k)" and "ends (rcv n)" by (rule first_end)
  with recv_loop_ends [of n rcv 0 "[]"] show "\<exists>y. recv_loop rcv 0 [] = Some y" by simp
qed

lemma recv_loop_drip: "recv_loop drip i data = None"
proof -
  have "recv_loop rcv i data = Some y \<Longrightarrow> rcv \<noteq> drip" for rcv y
    using recv_loop_returns [of rcv i data y] by (auto simp: ends_def drip_def newline_def)
  then show ?thesis by (cases "recv_loop drip i data") auto
qed

lemma consultar_nrc_connected:
  assumes "nrc_socket w nrc = Connected rcv" and "\<forall>k<n. \<not> ends (rcv k)" and "ends (rcv n)"
  shows "consultar_nrc py w nrc =
     Some (case rcv n of
             Recv_raises e \<Rightarrow> Returns (error_dict (''NRC service error: '' @ e))
           | Bytes chunk \<Rightarrow> decode_response py (gathered rcv 0 n))"
  using recv_loop_ends [of n rcv 0 "[]"] assms
  by (simp add: consultar_nrc_def split: recv.splits)

lemma consultar_nrc_returns:
  "consultar_nrc py w nrc \<noteq> None \<longleftrightarrow>
     (\<forall>rcv. nrc_socket w nrc = Connected rcv \<longrightarrow> (\<exists>n. ends (rcv n)))"
proof (cases "nrc_socket w nrc")
  case (Connect_raises e)
  then show ?thesis by (simp add: consultar_nrc_def)
next
  case (Send_raises e)
  then show ?thesis by (simp add: consultar_nrc_def)
next
  case (Connected rcv)
  have "consultar_nrc py w nrc \<noteq> None \<longleftrightarrow> (\<exists>y. recv_loop rcv 0 [] = Some y)"
    using Connected by (auto simp: consultar_nrc_def split: option.splits sum.splits)
  with Connected show ?thesis by (simp add: recv_loop_terminates)
qed

lemma decode_response_raises:
  "decode_response py data = Raises x \<longleftrightarrow>
     data \<noteq> [] \<and> json_loads py (utf8_decode py (takeWhile (\<lambda>c. c \<noteq> newline) data)) = Loads_raises x"
  by (simp add: decode_response_def Let_def split: loads.splits)

lemma consultar_nrc_raises:
  "consultar_nrc py w nrc = Some (Raises x) \<longleftrightarrow>
     (\<exists>rcv n chunk. nrc_socket w nrc = Connected rcv \<and> (\<forall>k<n. \<not> ends (rcv k))
        \<and> rcv n = Bytes chunk \<and> ends (rcv n) \<and> gathered rcv 0 n \<noteq> []
        \<and> json_loads py (utf8_decode py (takeWhile (\<lambda>c. c \<noteq> newline) (gathered rcv 0 n)))
            = Loads_raises x)"
proof
  assume r: "consultar_nrc py w nrc = Some (Raises x)"
  then obtain rcv where c: "nrc_socket w nrc = Connected rcv"
    by (cases "nrc_socket w nrc") (simp_all add: consultar_nrc_def)
  from r have "consultar_nrc py w nrc \<noteq> None" by simp
  then have "\<forall>rcv. nrc_socket w nrc = Connected rcv \<longrightarrow> (\<exists>n. ends (rcv n))"
    by (rule consultar_nrc_returns [THEN iffD1])
  with c have "\<exists>n. ends (rcv n)" by simp
  then obtain m where "ends (rcv m)" ..
  then obtain n where n: "\<forall>k<n. \<not> ends (rcv k)" "ends (rcv n)" by (rule first_end)
  from consultar_nrc_connected [OF c n, of py] r
  obtain chunk where "rcv n = Bytes chunk" "decode_response py (gathered rcv 0 n) = Raises x"
    by (cases "rcv n") simp_all
  with c n show "\<exists>rcv n chunk. nrc_socket w nrc = Connected rcv \<and> (\<forall>k<n. \<not> ends (rcv k))
        \<and> rcv n = Bytes chunk \<and> ends (rcv n) \<and> gathered rcv 0 n \<noteq> []
        \<and> json_loads py (utf8_decode py (takeWhile (\<lambda>c. c \<noteq> newline) (gathered rcv 0 n)))
            = Loads_raises x"
    by (auto simp: decode_response_raises)
next
  assume "\<exists>rcv n chunk. nrc_socket w nrc = Connected rcv \<and> (\<forall>k<n. \<not> ends (rcv k))
        \<and> rcv n = Bytes chunk \<and> ends (rcv n) \<and> gathered rcv 0 n \<noteq> []
        \<and> json_loads py (utf8_decode py (takeWhile (\<lambda>c. c \<noteq> newline) (gathered rcv 0 n)))
            = Loads_raises x"
  then obtain rcv n chunk where c: "nrc_socket w nrc = Connected rcv"
    and n: "\<forall>k<n. \<not> ends (rcv k)" "ends (rcv n)" and b: "rcv n = Bytes chunk"
    and d: "decode_response py (gathered rcv 0 n) = Raises x"
    by (auto simp: decode_response_raises)
  from consultar_nrc_connected [OF c n, of py] b d
  show "consultar_nrc py w nrc = Some (Raises x)" by simp
qed

text \<open>The service that answers \<open>deep_line\<close>: a hundred chunks, then the line break.\<close>

lemma deep_recv_gathered:
  "i + n = 100 \<Longrightarrow> gathered deep_recv i n = replicate (1000 * n) (CHR ''['') @ [newline]"
proof (induction n arbitrary: i)
  case 0
  then show ?case by (simp add: deep_recv_def chunk_of_def)
next
  case (Suc n)
  then have "Suc i + n = 100" and "i < 100" by simp_all
  with Suc.IH [of "Suc i"] show ?case
    by (simp add: deep_recv_def chunk_of_def replicate_add [symmetric] del: replicate_Suc)
qed

lemma takeWhile_replicate_append:
  "P x \<Longrightarrow> takeWhile P (replicate n x @ ys) = replicate n x @ takeWhile P ys"
  by (induction n) simp_all

lemma deep_recv_line:
  "takeWhile (\<lambda>c. c \<noteq> newline) (gathered deep_recv 0 100) = deep_line"
proof -
  have "gathered deep_recv 0 100 = replicate 100000 (CHR ''['') @ [newline]"
    using deep_recv_gathered [of 0 100] by simp
  moreover have "CHR ''['' \<noteq> newline"
    by (simp add: newline_def)
  ultimately show ?thesis
    by (simp add: takeWhile_replicate_append deep_line_def del: takeWhile_append2)
qed

lemma deep_line_long:
  "length s < 100000 \<Longrightarrow> (s = deep_line) = False"
  "length s < 100000 \<Longrightarrow> (deep_line = s) = False"
  by (auto simp: deep_line_def)

lemma deep_recv_ends: "\<forall>k<100. \<not> ends (deep_recv k)" "ends (deep_recv 100)"
  by (simp_all add: deep_recv_def ends_def newline_def)

lemma demo_loads_deep:
  "demo_loads deep_line = Loads_raises
     ''maximum recursion depth exceeded while decoding a JSON array from a unicode string''"
proof -
  have n: "length deep_line = 100000" by (simp add: deep_line_def)
  have "deep_line \<noteq> line_ok"
  proof
    assume "deep_line = line_ok"
    then have "length deep_line = length line_ok" by simp
    with n show False by (simp add: line_ok_def)
  qed
  moreover have "deep_line \<noteq> line_not_found"
  proof
    assume "deep_line = line_not_found"
    then have "length deep_line = length line_not_found" by simp
    with n show False by (simp add: line_not_found_def)
  qed
  moreover have "deep_line \<noteq> ''[]''"
  proof
    assume "deep_line = ''[]''"
    then have "length deep_line = length ''[]''" by simp
    with n show False by simp
  qed
  ultimately show ?thesis by (simp add: demo_loads_def)
qed

text \<open>
  Claim C7 as stated fails twice. It says that the lookup never blocks indefinitely: the
  timeout of 3 seconds bounds each call of \<open>recv\<close>, not their number, so against a
  peer that sends one byte for every call and never a line break, no call raises, none
  finds the peer closed and none brings a line break, the loop never ends and the lookup
  returns nothing. And it says that the lookup never raises: the \<open>try\<close> around
  \<open>json.loads\<close> catches \<open>JSONDecodeError\<close> only, so for a service that answers a
  hundred thousand opening brackets and a line break, \<open>json.loads\<close> raises
  \<open>RecursionError\<close> and the exception leaves \<open>consultar_nrc\<close>.
\<close>

theorem consultar_nrc_counterexample:
  "consultar_nrc demo_py drip_world ''MAT101'' = None
   \<and> consultar_nrc demo_py (demo_world []) ''DEEP'' = Some (Raises
       ''maximum recursion depth exceeded while decoding a JSON array from a unicode string'')"
proof -
  have a: "consultar_nrc demo_py drip_world ''MAT101'' = None"
    by (simp add: consultar_nrc_def drip_world_def recv_loop_drip)
  have c: "nrc_socket (demo_world []) ''DEEP'' = Connected deep_recv"
    by (simp add: demo_world_def demo_socket_def)
  have g: "gathered deep_recv 0 100 \<noteq> []"
    by (simp add: deep_recv_gathered)
  have "consultar_nrc demo_py (demo_world []) ''DEEP''
      = Some (decode_response demo_py (gathered deep_recv 0 100))"
    using consultar_nrc_connected [OF c deep_recv_ends, of demo_py]
    by (simp add: deep_recv_def)
  also have "decode_response demo_py (gathered deep_recv 0 100) = Raises
       ''maximum recursion depth exceeded while decoding a JSON array from a unicode string''"
    using g by (simp add: decode_response_def deep_recv_line demo_py_def demo_loads_deep)
  finally show ?thesis using a by simp
qed

text \<open>
  Claim C7, as the code has it. The lookup returns or raises exactly when the connection
  or the send fails or, once connected, some call of \<open>recv\<close> raises (a timeout after 3
  seconds included), finds the peer closed or brings a line break. It raises exactly
  when the data that came is not empty and \<open>json.loads\<close> of its first line, decoded,
  raises something other than \<open>JSONDecodeError\<close>. A failure to connect or to send, a
  \<open>recv\<close> that raises or times out, a peer that closes without a byte and a line that
  \<open>json.loads\<close> refuses with \<open>JSONDecodeError\<close> each give a result of status
  \<open>error\<close> that carries a message, which is not the status \<open>not_found\<close>; a line that
  \<open>json.loads\<close> reads is returned as read, the \<open>not_found\<close> of the catalog included.
\<close>

theorem consultar_nrc_outcomes:
  "(nrc_socket w nrc = Connect_raises e \<or> nrc_socket w nrc = Send_raises e \<longrightarrow>
       consultar_nrc py w nrc = Some (Returns (error_dict (''NRC service error: '' @ e))))
   \<and> (nrc_socket w nrc = Connected rcv \<and> (\<forall>k<n. \<not> ends (rcv k)) \<and> rcv n = Recv_raises e \<longrightarrow>
       consultar_nrc py w nrc = Some (Returns (error_dict (''NRC service error: '' @ e))))
   \<and> (nrc_socket w nrc = Connected rcv \<and> rcv 0 = Bytes [] \<longrightarrow>
       consultar_nrc py w nrc = Some (Returns (error_dict ''NRC service sin respuesta'')))
   \<and> (nrc_socket w nrc = Connected rcv \<and> (\<forall>k<n. \<not> ends (rcv k)) \<and> rcv n = Bytes chunk
       \<and> ends (rcv n) \<and> gathered rcv 0 n \<noteq> []
       \<and> json_loads py (utf8_decode py (takeWhile (\<lambda>c. c \<noteq> newline) (gathered rcv 0 n)))
           = JSONDecodeError \<longrightarrow>
       consultar_nrc py w nrc =
         Some (Returns (error_dict (''NRC JSON inv'' @ a_acute @ ''lido: ''
                 @ utf8_decode py (takeWhile (\<lambda>c. c \<noteq> newline) (gathered rcv 0 n))))))
   \<and> (nrc_socket w nrc = Connected rcv \<and> (\<forall>k<n. \<not> ends (rcv k)) \<and> rcv n = Bytes chunk
       \<and> ends (rcv n) \<and> gathered rcv 0 n \<noteq> []
       \<and> json_loads py (utf8_decode py (takeWhile (\<lambda>c. c \<noteq> newline) (gathered rcv 0 n)))
           = Parsed j \<longrightarrow>
       consultar_nrc py w nrc = Some (Returns j))
   \<and> error_dict m = JObject [''status'' \<mapsto> JStr ''error'', ''message'' \<mapsto> JStr m]
   \<and> (\<forall>d. error_dict m = JObject d \<longrightarrow>
         d ''status'' = Some (JStr ''error'') \<and> d ''message'' = Some (JStr m)
         \<and> d ''status'' \<noteq> Some (JStr ''not_found''))
   \<and> (consultar_nrc py w nrc \<noteq> None \<longleftrightarrow>
        (\<forall>rcv. nrc_socket w nrc = Connected rcv \<longrightarrow> (\<exists>n. ends (rcv n))))
   \<and> (consultar_nrc py w nrc = Some (Raises x) \<longleftrightarrow>
        (\<exists>rcv n chunk. nrc_socket w nrc = Connected rcv \<and> (\<forall>k<n. \<not> ends (rcv k))
           \<and> rcv n = Bytes chunk \<and> ends (rcv n) \<and> gathered rcv 0 n \<noteq> []
           \<and> json_loads py (utf8_decode py (takeWhile (\<lambda>c. c \<noteq> newline) (gathered rcv 0 n)))
               = Loads_raises x))"
proof (intro conjI impI)
  assume "nrc_socket w nrc = Connect_raises e \<or> nrc_socket w nrc = Send_raises e"
  then show "consultar_nrc py w nrc = Some (Returns (error_dict (''NRC service error: '' @ e)))"
    by (auto simp: consultar_nrc_def)
next
  assume "nrc_socket w nrc = Connected rcv \<and> (\<forall>k<n. \<not> ends (rcv k)) \<and> rcv n = Recv_raises e"
  then have "nrc_socket w nrc = Connected rcv" "\<forall>k<n. \<not> ends (rcv k)" "ends (rcv n)"
    and "rcv n = Recv_raises e"
    by (simp_all add: ends_def)
  with consultar_nrc_connected [of w nrc rcv n py]
  show "consultar_nrc py w nrc = Some (Returns (error_dict (''NRC service error: '' @ e)))"
    by simp
next
  assume "nrc_socket w nrc = Connected rcv \<and> rcv 0 = Bytes []"
  then have "nrc_socket w nrc = Connected rcv" "\<forall>k<0. \<not> ends (rcv k)" "ends (rcv 0)"
    and "rcv 0 = Bytes []"
    by (simp_all add: ends_def)
  with consultar_nrc_connected [of w nrc rcv 0 py]
  show "consultar_nrc py w nrc = Some (Returns (error_dict ''NRC service sin respuesta''))"
    by (simp add: decode_response_def chunk_of_def)
next
  assume "nrc_socket w nrc = Connected rcv \<and> (\<forall>k<n. \<not> ends (rcv k)) \<and> rcv n = Bytes chunk
       \<and> ends (rcv n) \<and> gathered rcv 0 n \<noteq> []
       \<and> json_loads py (utf8_decode py (takeWhile (\<lambda>c. c \<noteq> newline) (gathered rcv 0 n)))
           = JSONDecodeError"
  then have "nrc_socket w nrc = Connected rcv" "\<forall>k<n. \<not> ends (rcv k)" "ends (rcv n)"
    and "rcv n = Bytes chunk" "gathered rcv 0 n \<noteq> []"
      "json_loads py (utf8_decode py (takeWhile (\<lambda>c. c \<noteq> newline) (gathered rcv 0 n)))
           = JSONDecodeError"
    by blast+
  with consultar_nrc_connected [of w nrc rcv n py]
  show "consultar_nrc py w nrc =
         Some (Returns (error_dict (''NRC JSON inv'' @ a_acute @ ''lido: ''
                 @ utf8_decode py (takeWhile (\<lambda>c. c \<noteq> newline) (gathered rcv 0 n)))))"
    by (simp add: decode_response_def)
next
  assume "nrc_socket w nrc = Connected rcv \<and> (\<forall>k<n. \<not> ends (rcv k)) \<and> rcv n = Bytes chunk
       \<and> ends (rcv n) \<and> gathered rcv 0 n \<noteq> []
       \<and> json_loads py (utf8_decode py (takeWhile (\<lambda>c. c \<noteq> newline) (gathered rcv 0 n)))
           = Parsed j"
  then have "nrc_socket w nrc = Connected rcv" "\<forall>k<n. \<not> ends (rcv k)" "ends (rcv n)"
    and "rcv n = Bytes chunk" "gathered rcv 0 n \<noteq> []"
      "json_loads py (utf8_decode py (takeWhile (\<lambda>c. c \<noteq> newline) (gathered rcv 0 n)))
           = Parsed j"
    by blast+
  with consultar_nrc_connected [of w nrc rcv n py]
  show "consultar_nrc py w nrc = Some (Returns j)"
    by (simp add: decode_response_def)
next
  show "error_dict m = JObject [''status'' \<mapsto> JStr ''error'', ''message'' \<mapsto> JStr m]"
    by (simp add: error_dict_def)
next
  show "\<forall>d. error_dict m = JObject d \<longrightarrow>
         d ''status'' = Some (JStr ''error'') \<and> d ''message'' = Some (JStr m)
         \<and> d ''status'' \<noteq> Some (JStr ''not_found'')"
    by (auto simp: error_dict_def)
next
  show "consultar_nrc py w nrc \<noteq> None \<longleftrightarrow>
        (\<forall>rcv. nrc_socket w nrc = Connected rcv \<longrightarrow> (\<exists>n. ends (rcv n)))"
    by (rule consultar_nrc_returns)
next
  show "consultar_nrc py w nrc = Some (Raises x) \<longleftrightarrow>
        (\<exists>rcv n chunk. nrc_socket w nrc = Connected rcv \<and> (\<forall>k<n. \<not> ends (rcv k))
           \<and> rcv n = Bytes chunk \<and> ends (rcv n) \<and> gathered rcv 0 n \<noteq> []
           \<and> json_loads py (utf8_decode py (takeWhile (\<lambda>c. c \<noteq> newline) (gathered rcv 0 n)))
               = Loads_raises x)"
    by (rule consultar_nrc_raises)
qed

text \<open>
  Witness of C7: the four failures in the concrete world, for the codes DOWN, SLOW,
  EMPTY and BAD, the \<open>not_found\<close> of the catalog for the code XXX, which comes in two
  chunks, and the JSON list of the code LIST, returned as read.
\<close>

theorem consultar_nrc_outcomes_witness:
  "consultar_nrc demo_py (demo_world []) ''DOWN''
     = Some (Returns (error_dict ''NRC service error: [Errno 111] Connection refused''))
   \<and> consultar_nrc demo_py (demo_world []) ''SLOW''
       = Some (Returns (error_dict ''NRC service error: timed out''))
   \<and> consultar_nrc demo_py (demo_world []) ''EMPTY''
       = Some (Returns (error_dict ''NRC service sin respuesta''))
   \<and> consultar_nrc demo_py (demo_world []) ''BAD''
       = Some (Returns (error_dict (''NRC JSON inv'' @ a_acute @ ''lido: <html>'')))
   \<and> consultar_nrc demo_py (demo_world []) ''LIST'' = Some (Returns (JValue ''list''))
   \<and> consultar_nrc demo_py (demo_world []) ''XXX''
       = Some (Returns (JObject [''status'' \<mapsto> JStr ''not_found'']))
   \<and> error_dict ''NRC service sin respuesta''
       = JObject [''status'' \<mapsto> JStr ''error'', ''message'' \<mapsto> JStr ''NRC service sin respuesta'']"
proof -
  let ?w = "demo_world []"
  let ?nf = "\<lambda>n::nat. if n = 0 then Bytes line_not_found
                           else if n = 1 then Bytes [newline] else Bytes []"
  note t = consultar_nrc_outcomes [where w = ?w and py = demo_py]
  have down: "nrc_socket ?w ''DOWN'' = Connect_raises ''[Errno 111] Connection refused''
      \<or> nrc_socket ?w ''DOWN'' = Send_raises ''[Errno 111] Connection refused''"
    by (simp add: demo_defs)
  have slow: "nrc_socket ?w ''SLOW'' = Connected (\<lambda>n::nat. Recv_raises ''timed out'')
      \<and> (\<forall>k<0. \<not> ends ((\<lambda>n::nat. Recv_raises ''timed out'') k))
      \<and> (\<lambda>n::nat. Recv_raises ''timed out'') 0 = Recv_raises ''timed out''"
    by (simp add: demo_defs)
  have empty: "nrc_socket ?w ''EMPTY'' = Connected (\<lambda>n::nat. Bytes [])
      \<and> (\<lambda>n::nat. Bytes []) 0 = Bytes []"
    by (simp add: demo_defs)
  have bad: "nrc_socket ?w ''BAD'' = Connected (\<lambda>n::nat. Bytes (''<html>'' @ [newline]))
      \<and> (\<forall>k<0. \<not> ends ((\<lambda>n::nat. Bytes (''<html>'' @ [newline])) k))
      \<and> (\<lambda>n::nat. Bytes (''<html>'' @ [newline])) 0 = Bytes (''<html>'' @ [newline])
      \<and> ends ((\<lambda>n::nat. Bytes (''<html>'' @ [newline])) 0)
      \<and> gathered (\<lambda>n::nat. Bytes (''<html>'' @ [newline])) 0 0 \<noteq> []
      \<and> json_loads demo_py (utf8_decode demo_py (takeWhile (\<lambda>c. c \<noteq> newline)
            (gathered (\<lambda>n::nat. Bytes (''<html>'' @ [newline])) 0 0))) = JSONDecodeError"
    by (simp add: demo_defs ends_def chunk_of_def demo_py_def deep_line_long)
  have line: "utf8_decode demo_py (takeWhile (\<lambda>c. c \<noteq> newline)
        (gathered (\<lambda>n::nat. Bytes (''<html>'' @ [newline])) 0 0))
      = ''<html>''"
    by (simp add: chunk_of_def newline_def demo_py_def)
  have list: "nrc_socket ?w ''LIST'' = Connected (\<lambda>n::nat. Bytes (''[]'' @ [newline]))
      \<and> (\<forall>k<0. \<not> ends ((\<lambda>n::nat. Bytes (''[]'' @ [newline])) k))
      \<and> (\<lambda>n::nat. Bytes (''[]'' @ [newline])) 0 = Bytes (''[]'' @ [newline])
      \<and> ends ((\<lambda>n::nat. Bytes (''[]'' @ [newline])) 0)
      \<and> gathered (\<lambda>n::nat. Bytes (''[]'' @ [newline])) 0 0 \<noteq> []
      \<and> json_loads demo_py (utf8_decode demo_py (takeWhile (\<lambda>c. c \<noteq> newline)
            (gathered (\<lambda>n::nat. Bytes (''[]'' @ [newline])) 0 0))) = Parsed (JValue ''list'')"
    by (simp add: demo_defs ends_def chunk_of_def demo_py_def)
  have nf: "nrc_socket ?w ''XXX'' = Connected ?nf
      \<and> (\<forall>k<1. \<not> ends (?nf k))
      \<and> ?nf 1 = Bytes [newline]
      \<and> ends (?nf 1)
      \<and> gathered ?nf 0 1 \<noteq> []
      \<and> json_loads demo_py (utf8_decode demo_py (takeWhile (\<lambda>c. c \<noteq> newline)
            (gathered ?nf 0 1))) = Parsed (JObject [''status'' \<mapsto> JStr ''not_found''])"
    by (simp add: demo_defs ends_def chunk_of_def demo_py_def)
  note t1 = t [where nrc = "''DOWN''", THEN conjunct1, rule_format, OF down]
  note t2 = t [where nrc = "''SLOW''", THEN conjunct2, THEN conjunct1, rule_format, OF slow]
  note t3 = t [where nrc = "''EMPTY''", THEN conjunct2, THEN conjunct2, THEN conjunct1,
      rule_format, OF empty]
  note t4 = t [where nrc = "''BAD''", THEN conjunct2, THEN conjunct2, THEN conjunct2,
      THEN conjunct1, rule_format, OF bad]
  note t5 = t [where nrc = "''LIST''", THEN conjunct2, THEN conjunct2, THEN conjunct2,
      THEN conjunct2, THEN conjunct1, rule_format, OF list]
  note t6 = t [where nrc = "''XXX''", THEN conjunct2, THEN conjunct2, THEN conjunct2,
      THEN conjunct2, THEN conjunct1, rule_format, OF nf]
  note t7 = t [where m = "''NRC service sin respuesta''", THEN conjunct2, THEN conjunct2,
      THEN conjunct2, THEN conjunct2, THEN conjunct2, THEN conjunct1]
  from t1 t2 t3 t4 [unfolded line] t5 t6 t7 show ?thesis by (intro conjI) simp_all
qed

section \<open>Dispatch: case of the command and white space around the line\<close>

text \<open>No handler reads the field that holds the command.\<close>

lemma handlers_ignore_command:
  "handle_agregar py w (a # args) = handle_agregar py w (b # args)"
  "handle_agregar_sin_hilos w (a # args) = handle_agregar_sin_hilos w (b # args)"
  "handle_buscar w (a # args) = handle_buscar w (b # args)"
  "handle_actualizar w (a # args) = handle_actualizar w (b # args)"
  "handle_listar w (a # args) = handle_listar w (b # args)"
  "handle_eliminar w (a # args) = handle_eliminar w (b # args)"
  by (simp_all add: handle_agregar_def handle_agregar_sin_hilos_def handle_buscar_def
      handle_actualizar_def handle_listar_def handle_eliminar_def
      cong del: outcome.case_cong_weak option.case_cong_weak)

lemma process_command_parts:
  assumes "str_strip py line \<noteq> []" and "split_bar (str_strip py line) = c # args"
  shows "process_command py w line =
     (let cmd = str_upper py c in
      if cmd = ''AGREGAR'' then handle_agregar py w (c # args)
      else if cmd = ''BUSCAR'' then Some (handle_buscar w (c # args))
      else if cmd = ''ACTUALIZAR'' then Some (handle_actualizar w (c # args))
      else if cmd = ''LISTAR'' then Some (handle_listar w (c # args))
      else if cmd = ''ELIMINAR'' then Some (handle_eliminar w (c # args))
      else Some (Returns (Msg ''error'' (''Comando desconocido: '' @ cmd)), w))"
    and "process_command_sin_hilos py w line =
     (let cmd = str_upper py c in
      if cmd = ''AGREGAR'' then handle_agregar_sin_hilos w (c # args)
      else if cmd = ''BUSCAR'' then handle_buscar w (c # args)
      else if cmd = ''ACTUALIZAR'' then handle_actualizar w (c # args)
      else if cmd = ''LISTAR'' then handle_listar w (c # args)
      else if cmd = ''ELIMINAR'' then handle_eliminar w (c # args)
      else (Returns (Msg ''error'' (''Comando desconocido: '' @ cmd)), w))"
  using assms
  by (simp_all add: process_command_def process_command_sin_hilos_def parse_line_def Let_def)

lemma process_command_strip:
  "str_strip py line' = str_strip py line \<Longrightarrow>
   process_command py w line' = process_command py w line
   \<and> process_command_sin_hilos py w line' = process_command_sin_hilos py w line"
  by (simp add: process_command_def process_command_sin_hilos_def parse_line_def)

text \<open>
  Claim C10. \<open>process_command\<close> of either server reads a line through
  \<open>line.strip()\<close> alone: two lines with the same stripped text get the same response
  and leave the same world. Let the stripped line be not empty, let its fields between
  the bars be \<open>c\<close> and the argument fields \<open>args\<close>, and let \<open>K\<close> be the upper case
  of \<open>c\<close>. When \<open>K\<close> is AGREGAR, BUSCAR, ACTUALIZAR, LISTAR or ELIMINAR, the result is
  the result of the handler of that command on these fields, whatever the case \<open>c\<close> is
  written in. It is also the result for any line that spells the command as \<open>K\<close> with
  the same argument fields (\<open>K\<close> is in upper case: its upper case is \<open>K\<close>).
  Stripping and upper-casing are those of the standard library, whatever they do to
  the text.
\<close>

theorem case_insensitive_dispatch:
  assumes line: "str_strip py line \<noteq> []" "split_bar (str_strip py line) = c # args"
    and variant: "str_upper py c = K"
    and spelled: "str_strip py line_upper \<noteq> []"
      "split_bar (str_strip py line_upper) = K # args"
    and upper_case: "str_upper py K = K"
  shows "(K = ''AGREGAR'' \<longrightarrow>
            process_command py w line = handle_agregar py w (c # args)
          \<and> process_command_sin_hilos py w line = handle_agregar_sin_hilos w (c # args))
    \<and> (K = ''BUSCAR'' \<longrightarrow>
            process_command py w line = Some (handle_buscar w (c # args))
          \<and> process_command_sin_hilos py w line = handle_buscar w (c # args))
    \<and> (K = ''ACTUALIZAR'' \<longrightarrow>
            process_command py w line = Some (handle_actualizar w (c # args))
          \<and> process_command_sin_hilos py w line = handle_actualizar w (c # args))
    \<and> (K = ''LISTAR'' \<longrightarrow>
            process_command py w line = Some (handle_listar w (c # args))
          \<and> process_command_sin_hilos py w line = handle_listar w (c # args))
    \<and> (K = ''ELIMINAR'' \<longrightarrow>
            process_command py w line = Some (handle_eliminar w (c # args))
          \<and> process_command_sin_hilos py w line = handle_eliminar w (c # args))
    \<and> process_command py w line = process_command py w line_upper
    \<and> process_command_sin_hilos py w line = process_command_sin_hilos py w line_upper
    \<and> (\<forall>line'. str_strip py line' = str_strip py line \<longrightarrow>
          process_command py w line' = process_command py w line
        \<and> process_command_sin_hilos py w line' = process_command_sin_hilos py w line)"
proof -
  note p = process_command_parts [OF line, of w]
  note q = process_command_parts [OF spelled, of w]
  note h = handlers_ignore_command [where w = w and a = c and args = args and b = K]
  have con: "process_command py w line = process_command py w line_upper"
    by (simp add: p(1) q(1) variant upper_case h Let_def)
  have sin: "process_command_sin_hilos py w line = process_command_sin_hilos py w line_upper"
    by (simp add: p(2) q(2) variant upper_case h Let_def)
  show ?thesis
  proof (intro conjI impI allI)
    assume "K = ''AGREGAR''"
    then show "process_command py w line = handle_agregar py w (c # args)"
      and "process_command_sin_hilos py w line = handle_agregar_sin_hilos w (c # args)"
      by (simp_all add: p variant)
  next
    assume "K = ''BUSCAR''"
    then show "process_command py w line = Some (handle_buscar w (c # args))"
      and "process_command_sin_hilos py w line = handle_buscar w (c # args)"
      by (simp_all add: p variant)
  next
    assume "K = ''ACTUALIZAR''"
    then show "process_command py w line = Some (handle_actualizar w (c # args))"
      and "process_command_sin_hilos py w line = handle_actualizar w (c # args)"
      by (simp_all add: p variant)
  next
    assume "K = ''LISTAR''"
    then show "process_command py w line = Some (handle_listar w (c # args))"
      and "process_command_sin_hilos py w line = handle_listar w (c # args)"
      by (simp_all add: p variant)
  next
    assume "K = ''ELIMINAR''"
    then show "process_command py w line = Some (handle_eliminar w (c # args))"
      and "process_command_sin_hilos py w line = handle_eliminar w (c # args)"
      by (simp_all add: p variant)
  next
    show "process_command py w line = process_command py w line_upper" by (rule con)
  next
    show "process_command_sin_hilos py w line = process_command_sin_hilos py w line_upper"
      by (rule sin)
  next
    fix line'
    assume e: "str_strip py line' = str_strip py line"
    show "process_command py w line' = process_command py w line"
      by (rule process_command_strip [OF e, THEN conjunct1])
    show "process_command_sin_hilos py w line' = process_command_sin_hilos py w line"
      by (rule process_command_strip [OF e, THEN conjunct2])
  qed
qed

text \<open>
  Witness of C10: the insert written in lower case between blanks is the insert written
  in upper case, and it succeeds in the concurrent server; the sequential server, which
  wants three arguments, answers it with its format error, as it answers the upper-case
  spelling.
\<close>

theorem case_insensitive_dispatch_witness:
  "str_strip demo_py ''  agregar|1|x|MAT101|10 '' = ''agregar|1|x|MAT101|10''
   \<and> str_upper demo_py ''agregar'' = ''AGREGAR''
   \<and> process_command demo_py (demo_world []) ''  agregar|1|x|MAT101|10 ''
       = Some (Returns (Data ''ok'' (JObj [(''ID_Estudiante'', ''1''), (''Materia'', ''MAT101''),
                 (''Calificacion'', ''10''), (''Nombre'', ''Ana'')])),
               demo_world [new_row ''1'' ''MAT101'' ''10''])
   \<and> process_command demo_py (demo_world []) ''AGREGAR|1|x|MAT101|10''
       = Some (Returns (Data ''ok'' (JObj [(''ID_Estudiante'', ''1''), (''Materia'', ''MAT101''),
                 (''Calificacion'', ''10''), (''Nombre'', ''Ana'')])),
               demo_world [new_row ''1'' ''MAT101'' ''10''])
   \<and> process_command_sin_hilos demo_py (demo_world []) ''  agregar|1|x|MAT101|10 ''
       = (Returns (Msg ''error''
            (''Formato inv'' @ a_acute
             @ ''lido para AGREGAR. Usa: AGREGAR|ID|Materia|Calificacion'')), demo_world [])
   \<and> process_command_sin_hilos demo_py (demo_world []) ''AGREGAR|1|x|MAT101|10''
       = (Returns (Msg ''error''
            (''Formato inv'' @ a_acute
             @ ''lido para AGREGAR. Usa: AGREGAR|ID|Materia|Calificacion'')), demo_world [])"
proof -
  let ?w = "demo_world []"
  let ?args = "[''1'', ''x'', ''MAT101'', ''10'']"
  have st: "str_strip demo_py ''  agregar|1|x|MAT101|10 '' = ''agregar|1|x|MAT101|10''"
    by (simp add: py_defs)
  have line: "str_strip demo_py ''  agregar|1|x|MAT101|10 '' \<noteq> []"
    "split_bar (str_strip demo_py ''  agregar|1|x|MAT101|10 '') = ''agregar'' # ?args"
    by (simp_all add: st)
  have "ascii_upper ''agregar'' = ''AGREGAR''"
    by code_simp
  then have variant: "str_upper demo_py ''agregar'' = ''AGREGAR''"
    by (simp add: demo_py_def)
  have su: "str_strip demo_py ''AGREGAR|1|x|MAT101|10'' = ''AGREGAR|1|x|MAT101|10''"
    by (simp add: py_defs)
  have spelled: "str_strip demo_py ''AGREGAR|1|x|MAT101|10'' \<noteq> []"
    "split_bar (str_strip demo_py ''AGREGAR|1|x|MAT101|10'') = ''AGREGAR'' # ?args"
    by (simp_all add: su)
  have upper_case: "str_upper demo_py ''AGREGAR'' = ''AGREGAR''"
    by (simp add: py_defs)
  note t = case_insensitive_dispatch [OF line variant spelled upper_case, of ?w]
  have lookup: "consultar_nrc demo_py ?w ''MAT101''
      = Some (Returns (JObject [''status'' \<mapsto> JStr ''ok'', ''data'' \<mapsto> JOther ''{...}'']))"
    by (simp add: nrc_defs demo_defs demo_py_def)
  have ld: "load_records ?w = Returns []"
    by (rule load_records_demo) simp
  have g: "get_estudiante_nombre (estudiantes ?w) ''1'' = Some ''Ana''"
    by (simp add: demo_defs)
  have ag: "agregar_store ?w ''1'' ''MAT101'' ''10'' ''Ana''
       = (Returns (Data ''ok'' (JObj [(''ID_Estudiante'', ''1''), (''Materia'', ''MAT101''),
            (''Calificacion'', ''10''), (''Nombre'', ''Ana'')])),
          demo_world [new_row ''1'' ''MAT101'' ''10''])"
    by (simp add: agregar_store_def ld agregar_records_def) (simp add: demo_defs)
  have h: "handle_agregar demo_py ?w (''agregar'' # ?args)
       = Some (Returns (Data ''ok'' (JObj [(''ID_Estudiante'', ''1''), (''Materia'', ''MAT101''),
                 (''Calificacion'', ''10''), (''Nombre'', ''Ana'')])),
               demo_world [new_row ''1'' ''MAT101'' ''10''])"
    by (simp add: handle_agregar_def lookup g ag Let_def)
  have s: "handle_agregar_sin_hilos ?w (''agregar'' # ?args)
       = (Returns (Msg ''error''
            (''Formato inv'' @ a_acute
             @ ''lido para AGREGAR. Usa: AGREGAR|ID|Materia|Calificacion'')), ?w)"
    by (simp add: handle_agregar_sin_hilos_def)
  note t1 = t [THEN conjunct1, rule_format, OF refl]
  note a = t1 [THEN conjunct1] and b = t1 [THEN conjunct2]
  note c = t [THEN conjunct2, THEN conjunct2, THEN conjunct2, THEN conjunct2, THEN conjunct2,
      THEN conjunct1]
  note d = t [THEN conjunct2, THEN conjunct2, THEN conjunct2, THEN conjunct2, THEN conjunct2,
      THEN conjunct2, THEN conjunct1]
  have a': "process_command demo_py ?w ''  agregar|1|x|MAT101|10 ''
       = Some (Returns (Data ''ok'' (JObj [(''ID_Estudiante'', ''1''), (''Materia'', ''MAT101''),
                 (''Calificacion'', ''10''), (''Nombre'', ''Ana'')])),
               demo_world [new_row ''1'' ''MAT101'' ''10''])"
    by (rule trans [OF a h])
  have c': "process_command demo_py ?w ''AGREGAR|1|x|MAT101|10''
       = Some (Returns (Data ''ok'' (JObj [(''ID_Estudiante'', ''1''), (''Materia'', ''MAT101''),
                 (''Calificacion'', ''10''), (''Nombre'', ''Ana'')])),
               demo_world [new_row ''1'' ''MAT101'' ''10''])"
    by (rule trans [OF c [symmetric] a'])
  have b': "process_command_sin_hilos demo_py ?w ''  agregar|1|x|MAT101|10 ''
       = (Returns (Msg ''error''
            (''Formato inv'' @ a_acute
             @ ''lido para AGREGAR. Usa: AGREGAR|ID|Materia|Calificacion'')), ?w)"
    by (rule trans [OF b s])
  have d': "process_command_sin_hilos demo_py ?w ''AGREGAR|1|x|MAT101|10''
       = (Returns (Msg ''error''
            (''Formato inv'' @ a_acute
             @ ''lido para AGREGAR. Usa: AGREGAR|ID|Materia|Calificacion'')), ?w)"
    by (rule trans [OF d [symmetric] b'])
  from st variant a' c' b' d' show ?thesis by (intro conjI)
qed

end
